theory Spec2Isabelle
  imports Complex_Main "HOL-Library.Word" "HOL-Library.Signed_Division"
begin

section \<open>YockEngine: the sprite simulation of \<open>YockEngine.cpp\<close>\<close>

text \<open>
  The program is one C++ file: a collision predicate on rectangles, a spawner of random
  sprites, and a frame loop in \<open>main\<close> that moves every sprite, bounces it off the screen
  edges, decrements its lifetime, resolves pairwise collisions and erases expired sprites.

  The C++ type \<open>int\<close> is modelled as a 32-bit word read in two's complement
  (\<open>sint\<close>, \<open>\<le>s\<close>, \<open><s\<close>). Signed overflow is undefined behaviour in C++; the model wraps
  around, as the usual targets do, and every theorem that reads a sum as a mathematical
  integer says which sums have to be representable.
\<close>

subsection \<open>Data model\<close>

type_synonym cint = "32 word"

text \<open>\<open>SDL_Rect\<close>: the fields \<open>x\<close>, \<open>y\<close>, \<open>w\<close>, \<open>h\<close> of the SDL structure.\<close>

record SDL_Rect =
  rect_x :: cint
  rect_y :: cint
  rect_w :: cint
  rect_h :: cint

text \<open>\<open>SDL_Texture*\<close> is an opaque pointer; only its identity matters here.\<close>

type_synonym texture = nat

record Sprite =
  rect :: SDL_Rect
  speedX :: cint
  speedY :: cint
  lifetime :: cint
  texture :: texture

definition SCREEN_WIDTH :: cint where
  "SCREEN_WIDTH = 800"

definition SCREEN_HEIGHT :: cint where
  "SCREEN_HEIGHT = 600"

subsection \<open>\<open>checkCollision\<close>\<close>

text \<open>
  \<open>a.x < b.x + b.w && a.x + a.w > b.x && a.y < b.y + b.h && a.y + a.h > b.y\<close>,
  on \<open>int\<close>.
\<close>

definition checkCollision :: "SDL_Rect \<Rightarrow> SDL_Rect \<Rightarrow> bool" where
  "checkCollision a b \<longleftrightarrow>
     rect_x a <s rect_x b + rect_w b \<and>
     rect_x b <s rect_x a + rect_w a \<and>
     rect_y a <s rect_y b + rect_h b \<and>
     rect_y b <s rect_y a + rect_h a"

subsection \<open>\<open>spawnSprite\<close>\<close>

text \<open>
  The operator \<open>%\<close> of C++ on \<open>int\<close> truncates towards zero: the remainder has the sign
  of the dividend.
\<close>

definition c_mod :: "cint \<Rightarrow> cint \<Rightarrow> cint" where
  "c_mod a b = word_of_int (sint a smod sint b)"

text \<open>
  \<open>spawnSprite\<close> calls \<open>rand()\<close> eight times. The generator belongs to the C library, so
  the eight results are an input of the model, one field for each call, named after the
  property it decides. (The order of the two calls inside one speed expression is
  unspecified in C++; naming the draws by their role makes the model independent of it.)
\<close>

record rand_draws =
  draw_x :: cint
  draw_y :: cint
  draw_magX :: cint
  draw_signX :: cint
  draw_magY :: cint
  draw_signY :: cint
  draw_lifetime :: cint
  draw_texture :: cint

text \<open>
  \<open>rand() % textures.size()\<close> converts the \<open>int\<close> to \<open>size_t\<close> (sign extension to 64 bits)
  and takes the unsigned remainder. With an empty registry this is a division by zero,
  which is undefined behaviour: the model returns \<open>None\<close>.
\<close>

definition texture_index :: "cint \<Rightarrow> nat \<Rightarrow> nat" where
  "texture_index r n = unat (scast r :: 64 word) mod n"

definition spawnSprite :: "texture list \<Rightarrow> rand_draws \<Rightarrow> Sprite option" where
  "spawnSprite textures d =
     (if textures = [] then None
      else Some \<lparr>
        rect = \<lparr> rect_x = c_mod (draw_x d) (SCREEN_WIDTH - 50),
                 rect_y = c_mod (draw_y d) (SCREEN_HEIGHT - 50),
                 rect_w = 50,
                 rect_h = 50 \<rparr>,
        speedX = (c_mod (draw_magX d) 5 + 1) * (if c_mod (draw_signX d) 2 \<noteq> 0 then 1 else - 1),
        speedY = (c_mod (draw_magY d) 5 + 1) * (if c_mod (draw_signY d) 2 \<noteq> 0 then 1 else - 1),
        lifetime = c_mod (draw_lifetime d) 300 + 100,
        texture = textures ! texture_index (draw_texture d) (length textures) \<rparr>)"

subsection \<open>The frame loop of \<open>main\<close>: moving, bouncing, ageing\<close>

text \<open>
  The body of the first loop (lines 160 to 172) for one sprite. The displacement
  \<open>static_cast<int>(speed * deltaTime * 60)\<close> is a floating-point computation on the
  frame's \<open>deltaTime\<close>; it is not modelled, and enters as the function \<open>disp\<close> from a
  speed to the displacement of this frame. The same \<open>disp\<close> serves both axes and every
  sprite of the frame, as the same \<open>deltaTime\<close> does.
\<close>

definition integrate :: "(cint \<Rightarrow> cint) \<Rightarrow> Sprite \<Rightarrow> Sprite" where
  "integrate disp s =
     (let s1 = s\<lparr>rect := (rect s)\<lparr>rect_x := rect_x (rect s) + disp (speedX s)\<rparr>\<rparr>
      in s1\<lparr>rect := (rect s1)\<lparr>rect_y := rect_y (rect s1) + disp (speedY s1)\<rparr>\<rparr>)"

definition bounce :: "Sprite \<Rightarrow> Sprite" where
  "bounce s =
     (let s1 = (if rect_x (rect s) \<le>s 0 \<or> SCREEN_WIDTH \<le>s rect_x (rect s) + rect_w (rect s)
                then s\<lparr>speedX := - speedX s\<rparr> else s)
      in (if rect_y (rect s1) \<le>s 0 \<or> SCREEN_HEIGHT \<le>s rect_y (rect s1) + rect_h (rect s1)
          then s1\<lparr>speedY := - speedY s1\<rparr> else s1))"

definition update_sprite :: "(cint \<Rightarrow> cint) \<Rightarrow> Sprite \<Rightarrow> Sprite" where
  "update_sprite disp s = (let s1 = bounce (integrate disp s) in s1\<lparr>lifetime := lifetime s1 - 1\<rparr>)"

text \<open>\<open>for (size_t i = 0; i < sprites.size(); ++i)\<close>, started at any index.\<close>

function update_loop :: "(cint \<Rightarrow> cint) \<Rightarrow> nat \<Rightarrow> Sprite list \<Rightarrow> Sprite list" where
  "update_loop disp i sprites =
     (if i < length sprites
      then update_loop disp (i + 1) (sprites[i := update_sprite disp (sprites ! i)])
      else sprites)"
  by pat_completeness auto
termination
  by (relation "measure (\<lambda>(disp, i, sprites). length sprites - i)") auto

subsection \<open>The frame loop of \<open>main\<close>: collisions\<close>

text \<open>
  The statements of the body of the \<open>if\<close> at line 178, each as a function on the
  vector: \<open>sprites[k].speedX = -sprites[k].speedX\<close>, \<open>sprites[k].speedY = -sprites[k].speedY\<close>,
  \<open>sprites[k].rect.x += d\<close> and \<open>sprites[k].rect.y += d\<close> (with \<open>d\<close> either 1 or -1).
\<close>

definition negate_speedX :: "nat \<Rightarrow> Sprite list \<Rightarrow> Sprite list" where
  "negate_speedX k v = v[k := (v ! k)\<lparr>speedX := - speedX (v ! k)\<rparr>]"

definition negate_speedY :: "nat \<Rightarrow> Sprite list \<Rightarrow> Sprite list" where
  "negate_speedY k v = v[k := (v ! k)\<lparr>speedY := - speedY (v ! k)\<rparr>]"

definition move_x :: "nat \<Rightarrow> cint \<Rightarrow> Sprite list \<Rightarrow> Sprite list" where
  "move_x k d v = v[k := (v ! k)\<lparr>rect := (rect (v ! k))\<lparr>rect_x := rect_x (rect (v ! k)) + d\<rparr>\<rparr>]"

definition move_y :: "nat \<Rightarrow> cint \<Rightarrow> Sprite list \<Rightarrow> Sprite list" where
  "move_y k d v = v[k := (v ! k)\<lparr>rect := (rect (v ! k))\<lparr>rect_y := rect_y (rect (v ! k)) + d\<rparr>\<rparr>]"

text \<open>The two \<open>if\<close>/\<open>else\<close> statements that separate the sprites (lines 187 to 203).\<close>

definition separate_x :: "nat \<Rightarrow> nat \<Rightarrow> Sprite list \<Rightarrow> Sprite list" where
  "separate_x i j v =
     (if rect_x (rect (v ! i)) <s rect_x (rect (v ! j))
      then move_x j 1 (move_x i (- 1) v)
      else move_x j (- 1) (move_x i 1 v))"

definition separate_y :: "nat \<Rightarrow> nat \<Rightarrow> Sprite list \<Rightarrow> Sprite list" where
  "separate_y i j v =
     (if rect_y (rect (v ! i)) <s rect_y (rect (v ! j))
      then move_y j 1 (move_y i (- 1) v)
      else move_y j (- 1) (move_y i 1 v))"

text \<open>The whole body of the \<open>if\<close>, in the order of the source.\<close>

definition resolve_collision :: "nat \<Rightarrow> nat \<Rightarrow> Sprite list \<Rightarrow> Sprite list" where
  "resolve_collision i j sprites =
     separate_y i j (separate_x i j
       (negate_speedY j (negate_speedX j (negate_speedY i (negate_speedX i sprites)))))"

text \<open>One visit of the pair \<open>(i, j)\<close>: the body of the inner loop.\<close>

definition visit_pair :: "nat \<Rightarrow> nat \<Rightarrow> Sprite list \<Rightarrow> Sprite list" where
  "visit_pair i j sprites =
     (if checkCollision (rect (sprites ! i)) (rect (sprites ! j))
      then resolve_collision i j sprites else sprites)"

lemma length_resolve_collision [simp]:
  "length (resolve_collision i j sprites) = length sprites"
  by (simp add: resolve_collision_def separate_x_def separate_y_def move_x_def move_y_def
      negate_speedX_def negate_speedY_def)

lemma length_visit_pair [simp]: "length (visit_pair i j sprites) = length sprites"
  by (simp add: visit_pair_def)

text \<open>\<open>for (size_t j = i + 1; j < sprites.size(); ++j)\<close>, started at any \<open>j\<close>.\<close>

function collide_inner :: "nat \<Rightarrow> nat \<Rightarrow> Sprite list \<Rightarrow> Sprite list" where
  "collide_inner i j sprites =
     (if j < length sprites
      then collide_inner i (j + 1) (visit_pair i j sprites)
      else sprites)"
  by pat_completeness auto
termination
  by (relation "measure (\<lambda>(i, j, sprites). length sprites - j)") auto

declare update_loop.simps [simp del]
declare collide_inner.simps [simp del]

lemma length_collide_inner [simp]: "length (collide_inner i j sprites) = length sprites"
proof (induction i j sprites rule: collide_inner.induct)
  case (1 i j sprites)
  then show ?case
    by (subst collide_inner.simps) simp
qed

text \<open>\<open>for (size_t i = 0; i < sprites.size(); ++i)\<close> of line 176, started at any \<open>i\<close>.\<close>

function collide_outer :: "nat \<Rightarrow> Sprite list \<Rightarrow> Sprite list" where
  "collide_outer i sprites =
     (if i < length sprites
      then collide_outer (i + 1) (collide_inner i (i + 1) sprites)
      else sprites)"
  by pat_completeness auto
termination
  by (relation "measure (\<lambda>(i, sprites). length sprites - i)") auto

declare collide_outer.simps [simp del]

subsection \<open>The frame loop of \<open>main\<close>: expiration\<close>

text \<open>
  \<open>sprites.erase(it)\<close> removes the element at the iterator and returns the iterator to the
  element that followed it: the same index in the shortened vector.
\<close>

definition erase :: "nat \<Rightarrow> 'a list \<Rightarrow> 'a list" where
  "erase it v = take it v @ drop (it + 1) v"

text \<open>
  \<open>for (auto it = sprites.begin(); it != sprites.end();)\<close>, the iterator as an index. The
  iterator starts at \<open>begin()\<close> and moves one element at a time, so \<open>it != end()\<close> is
  \<open>it < size()\<close>.
\<close>

function expire_loop :: "nat \<Rightarrow> Sprite list \<Rightarrow> Sprite list" where
  "expire_loop it sprites =
     (if it < length sprites
      then (if lifetime (sprites ! it) \<le>s 0
            then expire_loop it (erase it sprites)
            else expire_loop (it + 1) sprites)
      else sprites)"
  by pat_completeness auto
termination
  by (relation "measure (\<lambda>(it, sprites). length sprites - it)") (auto simp: erase_def)

declare expire_loop.simps [simp del]

subsection \<open>One frame\<close>

text \<open>
  Lines 159 to 226: the update loop, the collision loops, and the expiration loop, which
  the source runs twice.
\<close>

definition simulate :: "(cint \<Rightarrow> cint) \<Rightarrow> Sprite list \<Rightarrow> Sprite list" where
  "simulate disp sprites =
     expire_loop 0 (expire_loop 0 (collide_outer 0 (update_loop disp 0 sprites)))"

text \<open>
  The state that lives across frames, and what a frame receives from outside: the value
  the debug slider writes into \<open>spawnTimer\<close> (if the user moves it), the results of the
  calls of \<open>rand()\<close> should a sprite be spawned, and the displacement function of the
  frame's \<open>deltaTime\<close>.
\<close>

record state =
  sprites :: "Sprite list"
  spawnTimer :: cint

record frame_input =
  slider :: "cint option"
  draws :: rand_draws
  displacement :: "cint \<Rightarrow> cint"

text \<open>Lines 144 to 152: the slider, then the spawn gate.\<close>

definition spawn_gate :: "texture list \<Rightarrow> frame_input \<Rightarrow> state \<Rightarrow> state option" where
  "spawn_gate textures inp st =
     (let t0 = (case slider inp of None \<Rightarrow> spawnTimer st | Some v \<Rightarrow> v);
          t1 = t0 + 1
      in if 30 <s t1
         then (case spawnSprite textures (draws inp) of
                 None \<Rightarrow> None
               | Some s \<Rightarrow> Some \<lparr>sprites = sprites st @ [s], spawnTimer = 0\<rparr>)
         else Some \<lparr>sprites = sprites st, spawnTimer = t1\<rparr>)"

definition frame :: "texture list \<Rightarrow> frame_input \<Rightarrow> state \<Rightarrow> state option" where
  "frame textures inp st =
     (case spawn_gate textures inp st of
        None \<Rightarrow> None
      | Some st1 \<Rightarrow> Some (st1\<lparr>sprites := simulate (displacement inp) (sprites st1)\<rparr>))"

text \<open>The \<open>while (isRunning)\<close> loop over the frames for which inputs are given.\<close>

fun run :: "texture list \<Rightarrow> frame_input list \<Rightarrow> state \<Rightarrow> state option" where
  "run textures [] st = Some st"
| "run textures (inp # inps) st =
     (case frame textures inp st of None \<Rightarrow> None | Some st1 \<Rightarrow> run textures inps st1)"

subsection \<open>Predicates used to state the properties\<close>

text \<open>
  The sums \<open>x + w\<close> and \<open>y + h\<close> of a rectangle are representable in \<open>int\<close>: the
  condition under which the comparisons of the source are comparisons of integers.
\<close>

definition rect_no_overflow :: "SDL_Rect \<Rightarrow> bool" where
  "rect_no_overflow r \<longleftrightarrow>
     - 2147483648 \<le> sint (rect_x r) + sint (rect_w r) \<and>
     sint (rect_x r) + sint (rect_w r) \<le> 2147483647 \<and>
     - 2147483648 \<le> sint (rect_y r) + sint (rect_h r) \<and>
     sint (rect_y r) + sint (rect_h r) \<le> 2147483647"

text \<open>The point \<open>(p, q)\<close> of the plane lies in the open interior of the rectangle.\<close>

definition in_open_interior :: "SDL_Rect \<Rightarrow> real \<Rightarrow> real \<Rightarrow> bool" where
  "in_open_interior r p q \<longleftrightarrow>
     real_of_int (sint (rect_x r)) < p \<and> p < real_of_int (sint (rect_x r) + sint (rect_w r)) \<and>
     real_of_int (sint (rect_y r)) < q \<and> q < real_of_int (sint (rect_y r) + sint (rect_h r))"

text \<open>Every call of \<open>rand()\<close> returns a value between 0 and \<open>RAND_MAX\<close>.\<close>

definition draws_nonneg :: "rand_draws \<Rightarrow> bool" where
  "draws_nonneg d \<longleftrightarrow>
     0 \<le> sint (draw_x d) \<and> 0 \<le> sint (draw_y d) \<and>
     0 \<le> sint (draw_magX d) \<and> 0 \<le> sint (draw_signX d) \<and>
     0 \<le> sint (draw_magY d) \<and> 0 \<le> sint (draw_signY d) \<and>
     0 \<le> sint (draw_lifetime d) \<and> 0 \<le> sint (draw_texture d)"

text \<open>Both speed components of a sprite are different from zero.\<close>

definition speeds_nonzero :: "Sprite \<Rightarrow> bool" where
  "speeds_nonzero s \<longleftrightarrow> speedX s \<noteq> 0 \<and> speedY s \<noteq> 0"

text \<open>The remaining lifetimes of a collection, in its order, as integers.\<close>

definition lifetimes :: "Sprite list \<Rightarrow> int list" where
  "lifetimes v = map (\<lambda>s. sint (lifetime s)) v"

text \<open>A vector whose speeds are those of \<open>v\<close>, index by index, up to the sign.\<close>

definition same_speeds_up_to_sign :: "Sprite list \<Rightarrow> Sprite list \<Rightarrow> bool" where
  "same_speeds_up_to_sign v u \<longleftrightarrow>
     length u = length v \<and>
     (\<forall>k < length v.
        (speedX (u ! k) = speedX (v ! k) \<or> speedX (u ! k) = - speedX (v ! k)) \<and>
        (speedY (u ! k) = speedY (v ! k) \<or> speedY (u ! k) = - speedY (v ! k)))"

subsection \<open>Example inputs\<close>

text \<open>A frame without a move of the slider, in which \<open>deltaTime\<close> is one sixtieth of a second
  computed exactly (the displacement is the speed), and a sprite inside the screen.\<close>

definition example_input :: frame_input where
  "example_input = \<lparr>slider = None,
     draws = \<lparr>draw_x = 12345, draw_y = 6789, draw_magX = 7, draw_signX = 4,
        draw_magY = 3, draw_signY = 9, draw_lifetime = 1000, draw_texture = 5\<rparr>,
     displacement = (\<lambda>v. v)\<rparr>"

definition example_sprite :: Sprite where
  "example_sprite = \<lparr>rect = \<lparr>rect_x = 100, rect_y = 100, rect_w = 50, rect_h = 50\<rparr>,
     speedX = 2, speedY = 3, lifetime = 5, texture = 1\<rparr>"

text \<open>Two sprites with the same bounds and opposite horizontal speeds.\<close>

definition overlap_a :: Sprite where
  "overlap_a = \<lparr>rect = \<lparr>rect_x = 100, rect_y = 100, rect_w = 50, rect_h = 50\<rparr>,
     speedX = 2, speedY = 0, lifetime = 9, texture = 1\<rparr>"

definition overlap_b :: Sprite where
  "overlap_b = \<lparr>rect = \<lparr>rect_x = 100, rect_y = 100, rect_w = 50, rect_h = 50\<rparr>,
     speedX = - 2, speedY = 0, lifetime = 9, texture = 2\<rparr>"

text \<open>A sprite past the right and the bottom edge, and the sprite of the scenario of the
  specification.\<close>

definition corner_sprite :: Sprite where
  "corner_sprite = \<lparr>rect = \<lparr>rect_x = 795, rect_y = 595, rect_w = 50, rect_h = 50\<rparr>,
     speedX = 3, speedY = 2, lifetime = 5, texture = 1\<rparr>"

definition SpriteA :: Sprite where
  "SpriteA = \<lparr>rect = \<lparr>rect_x = 795, rect_y = 300, rect_w = 50, rect_h = 50\<rparr>,
     speedX = 3, speedY = 0, lifetime = 5, texture = 1\<rparr>"

text \<open>
  A sprite inside the screen that moves to the right, and the displacements of two frame
  times: 250 ms (\<open>deltaTime = 0.25\<close>, so \<open>speed * 0.25 * 60 = 15 * speed\<close>) and 125 ms
  (\<open>deltaTime = 0.125\<close>, so \<open>speed * 0.125 * 60 = 7.5 * speed\<close>, truncated towards zero).
  The two functions are the displacements of the code for the speeds whose floating-point
  products are exact, as they are for every speed of magnitude up to a million (the
  speeds of the program lie between -5 and 5); they are used at the speeds 2, -2 and 0
  only. For larger speeds the code rounds and these functions do not.
\<close>

definition stuck_sprite :: Sprite where
  "stuck_sprite = \<lparr>rect = \<lparr>rect_x = 740, rect_y = 300, rect_w = 50, rect_h = 50\<rparr>,
     speedX = 2, speedY = 0, lifetime = 100, texture = 1\<rparr>"

definition disp_250ms :: "cint \<Rightarrow> cint" where
  "disp_250ms speed = 15 * speed"

definition disp_125ms :: "cint \<Rightarrow> cint" where
  "disp_125ms speed = word_of_int ((15 * sint speed) sdiv 2)"

text \<open>The two frames as inputs of the frame loop: the slider is not moved, and the results
  of \<open>rand()\<close> are not used, since no sprite is spawned.\<close>

definition frame_250ms :: frame_input where
  "frame_250ms = \<lparr>slider = None,
     draws = \<lparr>draw_x = 0, draw_y = 0, draw_magX = 0, draw_signX = 0,
        draw_magY = 0, draw_signY = 0, draw_lifetime = 0, draw_texture = 0\<rparr>,
     displacement = disp_250ms\<rparr>"

definition frame_125ms :: frame_input where
  "frame_125ms = \<lparr>slider = None,
     draws = \<lparr>draw_x = 0, draw_y = 0, draw_magX = 0, draw_signX = 0,
        draw_magY = 0, draw_signY = 0, draw_lifetime = 0, draw_texture = 0\<rparr>,
     displacement = disp_125ms\<rparr>"

section \<open>Properties\<close>

subsection \<open>Reading the machine integers\<close>

lemma sint_add_no_overflow:
  fixes a b :: cint
  assumes "- 2147483648 \<le> sint a + sint b" "sint a + sint b \<le> 2147483647"
  shows "sint (a + b) = sint a + sint b"
proof -
  have "signed_take_bit 31 (sint a + sint b) = sint a + sint b"
    using assms by (simp add: signed_take_bit_int_eq_self_iff)
  then show ?thesis by (simp add: sint_word_ariths)
qed

lemma sint_sub_no_overflow:
  fixes a b :: cint
  assumes "- 2147483648 \<le> sint a - sint b" "sint a - sint b \<le> 2147483647"
  shows "sint (a - b) = sint a - sint b"
proof -
  have "signed_take_bit 31 (sint a - sint b) = sint a - sint b"
    using assms by (simp add: signed_take_bit_int_eq_self_iff)
  then show ?thesis by (simp add: sint_word_ariths)
qed

lemma sint_cint_range:
  fixes a :: cint
  shows "- 2147483648 \<le> sint a" "sint a \<le> 2147483647"
  using sint_range_size [of a] by (simp_all add: word_size)


subsection \<open>The loops as list functions\<close>

lemma update_loop_from:
  "update_loop disp i v = take i v @ map (update_sprite disp) (drop i v)"
proof (induction disp i v rule: update_loop.induct)
  case (1 disp i v)
  show ?case
  proof (cases "i < length v")
    case True
    have "update_loop disp i v
            = update_loop disp (i + 1) (v[i := update_sprite disp (v ! i)])"
      using True by (subst update_loop.simps) simp
    also have "\<dots> = take i v @ update_sprite disp (v ! i)
                      # map (update_sprite disp) (drop (Suc i) v)"
      using True "1.IH" by (simp add: take_Suc_conv_app_nth)
    also have "\<dots> = take i v @ map (update_sprite disp) (drop i v)"
      using True by (simp add: Cons_nth_drop_Suc [symmetric])
    finally show ?thesis .
  next
    case False
    then show ?thesis by (subst update_loop.simps) simp
  qed
qed

lemma update_loop_map: "update_loop disp 0 v = map (update_sprite disp) v"
  by (simp add: update_loop_from)

lemma expire_loop_from:
  "expire_loop it v
     = take it v @ filter (\<lambda>s. \<not> lifetime s \<le>s 0) (drop it v)"
proof (induction it v rule: expire_loop.induct)
  case (1 it v)
  show ?case
  proof (cases "it < length v")
    case True
    note inb = True
    have split: "drop it v = v ! it # drop (Suc it) v"
      using inb by (simp add: Cons_nth_drop_Suc)
    show ?thesis
    proof (cases "lifetime (v ! it) \<le>s 0")
      case True
      have "expire_loop it v = expire_loop it (erase it v)"
        using inb True by (subst expire_loop.simps) simp
      also have "\<dots> = take it (erase it v)
                        @ filter (\<lambda>s. \<not> lifetime s \<le>s 0) (drop it (erase it v))"
        using inb True by (rule "1.IH"(1))
      also have "\<dots> = take it v @ filter (\<lambda>s. \<not> lifetime s \<le>s 0) (drop it v)"
        using inb True by (simp add: erase_def split min_def)
      finally show ?thesis .
    next
      case False
      have "expire_loop it v = expire_loop (it + 1) v"
        using inb False by (subst expire_loop.simps) simp
      also have "\<dots> = take (it + 1) v
                        @ filter (\<lambda>s. \<not> lifetime s \<le>s 0) (drop (it + 1) v)"
        using inb False by (rule "1.IH"(2))
      also have "\<dots> = take it v @ filter (\<lambda>s. \<not> lifetime s \<le>s 0) (drop it v)"
        using inb False by (simp add: split take_Suc_conv_app_nth)
      finally show ?thesis .
    qed
  next
    case False
    then show ?thesis by (subst expire_loop.simps) simp
  qed
qed

lemma expire_loop_filter:
  "expire_loop 0 v = filter (\<lambda>s. 0 < sint (lifetime s)) v"
proof -
  have "(\<lambda>s::Sprite. \<not> lifetime s \<le>s 0) = (\<lambda>s. 0 < sint (lifetime s))"
    by (auto simp: word_sle_eq)
  then show ?thesis by (simp add: expire_loop_from)
qed

lemma collide_inner_fold:
  "collide_inner i j v = fold (visit_pair i) [j..<length v] v"
proof (induction i j v rule: collide_inner.induct)
  case (1 i j v)
  show ?case
  proof (cases "j < length v")
    case True
    then show ?thesis
      using "1.IH" by (subst collide_inner.simps) (simp add: upt_conv_Cons)
  next
    case False
    then show ?thesis by (subst collide_inner.simps) simp
  qed
qed

lemma length_fold_visit_pair [simp]: "length (fold (visit_pair i) js v) = length v"
  by (induction js arbitrary: v) simp_all

lemma collide_outer_fold:
  "collide_outer i v
     = fold (\<lambda>i. fold (visit_pair i) [i + 1..<length v]) [i..<length v] v"
proof (induction i v rule: collide_outer.induct)
  case (1 i v)
  show ?case
  proof (cases "i < length v")
    case True
    then show ?thesis
      using "1.IH" by (subst collide_outer.simps) (simp add: upt_conv_Cons collide_inner_fold)
  next
    case False
    then show ?thesis by (subst collide_outer.simps) simp
  qed
qed


subsection \<open>The collision predicate\<close>

lemma checkCollision_sint:
  assumes "rect_no_overflow a" "rect_no_overflow b"
  shows "checkCollision a b \<longleftrightarrow>
           sint (rect_x a) < sint (rect_x b) + sint (rect_w b) \<and>
           sint (rect_x a) + sint (rect_w a) > sint (rect_x b) \<and>
           sint (rect_y a) < sint (rect_y b) + sint (rect_h b) \<and>
           sint (rect_y a) + sint (rect_h a) > sint (rect_y b)"
  using assms
  by (simp add: checkCollision_def rect_no_overflow_def word_sless_alt sint_add_no_overflow)

lemma open_intervals_meet:
  fixes a b c d :: int
  assumes "a < b" "c < d"
  shows "(\<exists>p :: real. real_of_int a < p \<and> p < real_of_int b \<and> real_of_int c < p \<and> p < real_of_int d)
           \<longleftrightarrow> a < d \<and> c < b"
proof
  assume "\<exists>p :: real. real_of_int a < p \<and> p < real_of_int b \<and> real_of_int c < p \<and> p < real_of_int d"
  then obtain p :: real where "real_of_int a < p" "p < real_of_int b" "real_of_int c < p" "p < real_of_int d"
    by blast
  then have "real_of_int a < real_of_int d" "real_of_int c < real_of_int b"
    by linarith+
  then show "a < d \<and> c < b" by simp
next
  assume h: "a < d \<and> c < b"
  define p :: real where "p = (real_of_int (max a c) + real_of_int (min b d)) / 2"
  have "max a c < min b d"
    using assms h by simp
  then have "real_of_int (max a c) < real_of_int (min b d)"
    by (simp only: of_int_less_iff)
  then have "real_of_int (max a c) < p" "p < real_of_int (min b d)"
    by (simp_all add: p_def)
  moreover have "real_of_int a \<le> real_of_int (max a c)" "real_of_int c \<le> real_of_int (max a c)"
    "real_of_int (min b d) \<le> real_of_int b" "real_of_int (min b d) \<le> real_of_int d"
    by simp_all
  ultimately have "real_of_int a < p \<and> p < real_of_int b \<and> real_of_int c < p \<and> p < real_of_int d"
    by linarith
  then show "\<exists>p :: real. real_of_int a < p \<and> p < real_of_int b \<and> real_of_int c < p \<and> p < real_of_int d"
    by blast
qed

lemma checkCollision_interiors:
  assumes "rect_no_overflow a" "rect_no_overflow b"
    and "0 < sint (rect_w a)" "0 < sint (rect_h a)" "0 < sint (rect_w b)" "0 < sint (rect_h b)"
  shows "checkCollision a b \<longleftrightarrow> (\<exists>p q. in_open_interior a p q \<and> in_open_interior b p q)"
proof -
  have x: "(\<exists>p :: real. real_of_int (sint (rect_x a)) < p
              \<and> p < real_of_int (sint (rect_x a) + sint (rect_w a))
              \<and> real_of_int (sint (rect_x b)) < p
              \<and> p < real_of_int (sint (rect_x b) + sint (rect_w b)))
           \<longleftrightarrow> sint (rect_x a) < sint (rect_x b) + sint (rect_w b)
             \<and> sint (rect_x b) < sint (rect_x a) + sint (rect_w a)"
    using assms(3,5) by (intro open_intervals_meet) simp_all
  have y: "(\<exists>q :: real. real_of_int (sint (rect_y a)) < q
              \<and> q < real_of_int (sint (rect_y a) + sint (rect_h a))
              \<and> real_of_int (sint (rect_y b)) < q
              \<and> q < real_of_int (sint (rect_y b) + sint (rect_h b)))
           \<longleftrightarrow> sint (rect_y a) < sint (rect_y b) + sint (rect_h b)
             \<and> sint (rect_y b) < sint (rect_y a) + sint (rect_h a)"
    using assms(4,6) by (intro open_intervals_meet) simp_all
  have "(\<exists>p q. in_open_interior a p q \<and> in_open_interior b p q)
          \<longleftrightarrow> (\<exists>p :: real. real_of_int (sint (rect_x a)) < p
              \<and> p < real_of_int (sint (rect_x a) + sint (rect_w a))
              \<and> real_of_int (sint (rect_x b)) < p
              \<and> p < real_of_int (sint (rect_x b) + sint (rect_w b)))
            \<and> (\<exists>q :: real. real_of_int (sint (rect_y a)) < q
              \<and> q < real_of_int (sint (rect_y a) + sint (rect_h a))
              \<and> real_of_int (sint (rect_y b)) < q
              \<and> q < real_of_int (sint (rect_y b) + sint (rect_h b)))"
    unfolding in_open_interior_def by blast
  then show ?thesis
    unfolding x y using checkCollision_sint [OF assms(1,2)] by auto
qed

text \<open>
  Claim C7. Where the sums \<open>x + w\<close> and \<open>y + h\<close> of both rectangles are representable,
  \<open>checkCollision a b\<close> is true exactly when \<open>a.x < b.x + b.w\<close>, \<open>a.x + a.w > b.x\<close>,
  \<open>a.y < b.y + b.h\<close> and \<open>a.y + a.h > b.y\<close> hold of the integers; rectangles that only
  touch along an edge do not collide; \<open>{0,0,10,10}\<close> against \<open>{10,0,10,10}\<close> is false and
  against \<open>{9,0,10,10}\<close> is true. For rectangles of positive width and height this is the
  overlap of the open interiors: some point of the plane lies strictly inside both.
\<close>

theorem checkCollision_open_overlap:
  assumes "rect_no_overflow a" "rect_no_overflow b"
  shows "(checkCollision a b \<longleftrightarrow>
            sint (rect_x a) < sint (rect_x b) + sint (rect_w b) \<and>
            sint (rect_x a) + sint (rect_w a) > sint (rect_x b) \<and>
            sint (rect_y a) < sint (rect_y b) + sint (rect_h b) \<and>
            sint (rect_y a) + sint (rect_h a) > sint (rect_y b))
         \<and> (sint (rect_x a) + sint (rect_w a) = sint (rect_x b) \<or>
            sint (rect_x b) + sint (rect_w b) = sint (rect_x a) \<or>
            sint (rect_y a) + sint (rect_h a) = sint (rect_y b) \<or>
            sint (rect_y b) + sint (rect_h b) = sint (rect_y a)
              \<longrightarrow> \<not> checkCollision a b)
         \<and> (0 < sint (rect_w a) \<and> 0 < sint (rect_h a) \<and> 0 < sint (rect_w b) \<and> 0 < sint (rect_h b)
              \<longrightarrow> (checkCollision a b
                     \<longleftrightarrow> (\<exists>p q. in_open_interior a p q \<and> in_open_interior b p q)))
         \<and> \<not> checkCollision \<lparr>rect_x = 0, rect_y = 0, rect_w = 10, rect_h = 10\<rparr>
                               \<lparr>rect_x = 10, rect_y = 0, rect_w = 10, rect_h = 10\<rparr>
         \<and> checkCollision \<lparr>rect_x = 0, rect_y = 0, rect_w = 10, rect_h = 10\<rparr>
                             \<lparr>rect_x = 9, rect_y = 0, rect_w = 10, rect_h = 10\<rparr>"
proof -
  have edge: "\<not> checkCollision \<lparr>rect_x = 0, rect_y = 0, rect_w = 10, rect_h = 10\<rparr>
                                \<lparr>rect_x = 10, rect_y = 0, rect_w = 10, rect_h = 10\<rparr>"
    by (simp add: checkCollision_def word_sless_alt)
  have overlap: "checkCollision \<lparr>rect_x = 0, rect_y = 0, rect_w = 10, rect_h = 10\<rparr>
                                \<lparr>rect_x = 9, rect_y = 0, rect_w = 10, rect_h = 10\<rparr>"
    by (simp add: checkCollision_def word_sless_alt)
  have interiors: "0 < sint (rect_w a) \<and> 0 < sint (rect_h a) \<and> 0 < sint (rect_w b) \<and> 0 < sint (rect_h b)
      \<longrightarrow> (checkCollision a b \<longleftrightarrow> (\<exists>p q. in_open_interior a p q \<and> in_open_interior b p q))"
    using checkCollision_interiors [OF assms] by blast
  have touching: "sint (rect_x a) + sint (rect_w a) = sint (rect_x b) \<or>
            sint (rect_x b) + sint (rect_w b) = sint (rect_x a) \<or>
            sint (rect_y a) + sint (rect_h a) = sint (rect_y b) \<or>
            sint (rect_y b) + sint (rect_h b) = sint (rect_y a)
              \<longrightarrow> \<not> checkCollision a b"
    using checkCollision_sint [OF assms] by auto
  show ?thesis
    using checkCollision_sint [OF assms] touching interiors edge overlap by blast
qed

theorem checkCollision_open_overlap_witness:
  "rect_no_overflow \<lparr>rect_x = 0, rect_y = 0, rect_w = 10, rect_h = 10\<rparr>
   \<and> rect_no_overflow \<lparr>rect_x = 10, rect_y = 0, rect_w = 10, rect_h = 10\<rparr>
   \<and> \<not> checkCollision \<lparr>rect_x = 0, rect_y = 0, rect_w = 10, rect_h = 10\<rparr>
                         \<lparr>rect_x = 10, rect_y = 0, rect_w = 10, rect_h = 10\<rparr>"
proof -
  have a: "rect_no_overflow \<lparr>rect_x = 0, rect_y = 0, rect_w = 10, rect_h = 10\<rparr>"
    by (simp add: rect_no_overflow_def)
  have b: "rect_no_overflow \<lparr>rect_x = 10, rect_y = 0, rect_w = 10, rect_h = 10\<rparr>"
    by (simp add: rect_no_overflow_def)
  show ?thesis
    using checkCollision_open_overlap [OF a b] a b by simp
qed

text \<open>
  Claim C9. The collision predicate is symmetric: \<open>checkCollision a b\<close> equals
  \<open>checkCollision b a\<close> for all rectangles, whatever the arithmetic does.
\<close>

theorem checkCollision_symmetric: "checkCollision a b = checkCollision b a"
  by (auto simp: checkCollision_def)

subsection \<open>Expiration\<close>

text \<open>
  Claim C2. The expiration phase (the erase loop, run twice as in the source, and each
  single run of it) leaves exactly the sprites whose lifetime is positive, in their
  order, each one once: the result is the filter of the collection it started from.
\<close>

theorem expiration_removes_exactly_expired:
  "expire_loop 0 (expire_loop 0 v) = filter (\<lambda>s. 0 < sint (lifetime s)) v
   \<and> expire_loop 0 v = filter (\<lambda>s. 0 < sint (lifetime s)) v"
  by (simp add: expire_loop_filter)

text \<open>
  Claim C10. The second expiration loop is redundant: running the erase loop twice gives
  the same collection as running it once, since the first run leaves no sprite with
  lifetime \<open>\<le> 0\<close> and the second run then returns its argument.
\<close>

theorem second_expiration_pass_redundant:
  "expire_loop 0 (expire_loop 0 v) = expire_loop 0 v
   \<and> list_all (\<lambda>s. \<not> lifetime s \<le>s 0) (expire_loop 0 v)"
  by (simp add: expire_loop_filter list_all_iff word_sle_eq)

subsection \<open>The spawner\<close>

lemma sint_c_mod_nonneg:
  assumes "0 \<le> sint r" "0 < sint n"
  shows "sint (c_mod r n) = sint r mod sint n"
proof -
  have eq: "sint r smod sint n = sint r mod sint n"
    using assms by (cases "sint r = 0") (simp_all add: signed_modulo_int_def)
  have lo: "0 \<le> sint r mod sint n" using assms by simp
  have "sint r mod sint n < sint n" using assms by simp
  with sint_cint_range [of n] have hi: "sint r mod sint n \<le> 2147483647" by linarith
  have "signed_take_bit 31 (sint r mod sint n) = sint r mod sint n"
    using lo hi by (simp add: signed_take_bit_int_eq_self_iff)
  then show ?thesis by (simp add: c_mod_def eq sint_sbintrunc')
qed

lemma sint_neg_small:
  fixes a :: cint
  assumes "- 2147483648 < sint a"
  shows "sint (- a) = - sint a"
proof -
  have "signed_take_bit 31 (- sint a) = - sint a"
    using assms sint_cint_range [of a] by (simp add: signed_take_bit_int_eq_self_iff)
  then show ?thesis by (simp add: sint_word_ariths)
qed

lemma spawn_speed:
  assumes "0 \<le> sint m" "0 \<le> sint g"
  shows "sint ((c_mod m 5 + 1) * (if c_mod g 2 \<noteq> 0 then 1 else - 1))
           = (sint m mod 5 + 1) * (if odd (sint g) then 1 else - 1)"
proof -
  have m5: "sint (c_mod m 5) = sint m mod 5"
    using assms by (simp add: sint_c_mod_nonneg)
  have "0 \<le> sint m mod 5" "sint m mod 5 < 5" by simp_all
  then have m1: "sint (c_mod m 5 + 1) = sint m mod 5 + 1"
    using m5 by (simp add: sint_add_no_overflow)
  have g2: "sint (c_mod g 2) = sint g mod 2"
    using assms by (simp add: sint_c_mod_nonneg)
  have "c_mod g 2 \<noteq> 0 \<longleftrightarrow> sint (c_mod g 2) \<noteq> 0"
    by (simp add: signed_eq_0_iff)
  then have sign: "c_mod g 2 \<noteq> 0 \<longleftrightarrow> odd (sint g)"
    unfolding g2 by (simp add: odd_iff_mod_2_eq_one)
  show ?thesis
  proof (cases "odd (sint g)")
    case True
    then show ?thesis using sign m1 by simp
  next
    case False
    have "sint (- (c_mod m 5 + 1)) = - sint (c_mod m 5 + 1)"
      using m1 \<open>0 \<le> sint m mod 5\<close> by (intro sint_neg_small) simp
    then show ?thesis using False sign m1 by simp
  qed
qed

lemma texture_index_less: "n \<noteq> 0 \<Longrightarrow> texture_index r n < n"
  by (simp add: texture_index_def)

lemma spawnSprite_facts:
  assumes "textures \<noteq> []" "draws_nonneg d"
  shows "\<exists>s. spawnSprite textures d = Some s
     \<and> rect_w (rect s) = 50 \<and> rect_h (rect s) = 50
     \<and> 0 \<le> sint (rect_x (rect s)) \<and> sint (rect_x (rect s)) + 50 \<le> 800
     \<and> 0 \<le> sint (rect_y (rect s)) \<and> sint (rect_y (rect s)) + 50 \<le> 600
     \<and> 1 \<le> \<bar>sint (speedX s)\<bar> \<and> \<bar>sint (speedX s)\<bar> \<le> 5
     \<and> 1 \<le> \<bar>sint (speedY s)\<bar> \<and> \<bar>sint (speedY s)\<bar> \<le> 5
     \<and> (0 < sint (speedX s) \<longleftrightarrow> odd (sint (draw_signX d)))
     \<and> (0 < sint (speedY s) \<longleftrightarrow> odd (sint (draw_signY d)))
     \<and> speedX s \<noteq> 0 \<and> speedY s \<noteq> 0
     \<and> 100 \<le> sint (lifetime s) \<and> sint (lifetime s) \<le> 400
     \<and> texture s \<in> set textures"
proof -
  have nn: "0 \<le> sint (draw_x d)" "0 \<le> sint (draw_y d)"
    "0 \<le> sint (draw_magX d)" "0 \<le> sint (draw_signX d)"
    "0 \<le> sint (draw_magY d)" "0 \<le> sint (draw_signY d)"
    "0 \<le> sint (draw_lifetime d)"
    using assms(2) by (simp_all add: draws_nonneg_def)
  define s where "s = the (spawnSprite textures d)"
  have some: "spawnSprite textures d = Some s"
    using assms(1) by (simp add: s_def spawnSprite_def)
  have x: "sint (rect_x (rect s)) = sint (draw_x d) mod 750"
    using assms(1) nn by (simp add: s_def spawnSprite_def SCREEN_WIDTH_def sint_c_mod_nonneg)
  have y: "sint (rect_y (rect s)) = sint (draw_y d) mod 550"
    using assms(1) nn by (simp add: s_def spawnSprite_def SCREEN_HEIGHT_def sint_c_mod_nonneg)
  have wh: "rect_w (rect s) = 50" "rect_h (rect s) = 50"
    using assms(1) by (simp_all add: s_def spawnSprite_def)
  have vx: "sint (speedX s) = (sint (draw_magX d) mod 5 + 1) * (if odd (sint (draw_signX d)) then 1 else - 1)"
    using assms(1) nn spawn_speed [of "draw_magX d" "draw_signX d"]
    by (simp add: s_def spawnSprite_def)
  have vy: "sint (speedY s) = (sint (draw_magY d) mod 5 + 1) * (if odd (sint (draw_signY d)) then 1 else - 1)"
    using assms(1) nn spawn_speed [of "draw_magY d" "draw_signY d"]
    by (simp add: s_def spawnSprite_def)
  have "sint (c_mod (draw_lifetime d) 300) = sint (draw_lifetime d) mod 300"
    using nn by (simp add: sint_c_mod_nonneg)
  moreover have "0 \<le> sint (draw_lifetime d) mod 300" "sint (draw_lifetime d) mod 300 < 300"
    by simp_all
  ultimately have "sint (c_mod (draw_lifetime d) 300 + 100) = sint (draw_lifetime d) mod 300 + 100"
    by (simp add: sint_add_no_overflow)
  then have life: "sint (lifetime s) = sint (draw_lifetime d) mod 300 + 100"
    using assms(1) by (simp add: s_def spawnSprite_def)
  have tex: "texture s \<in> set textures"
    using assms(1) by (simp add: s_def spawnSprite_def texture_index_less)
  have bx: "0 \<le> sint (draw_x d) mod 750" "sint (draw_x d) mod 750 < 750" by simp_all
  have by': "0 \<le> sint (draw_y d) mod 550" "sint (draw_y d) mod 550 < 550" by simp_all
  have bmx: "0 \<le> sint (draw_magX d) mod 5" "sint (draw_magX d) mod 5 < 5" by simp_all
  have bmy: "0 \<le> sint (draw_magY d) mod 5" "sint (draw_magY d) mod 5 < 5" by simp_all
  have bl: "0 \<le> sint (draw_lifetime d) mod 300" "sint (draw_lifetime d) mod 300 < 300" by simp_all
  have nzx: "speedX s \<noteq> 0"
  proof
    assume "speedX s = 0"
    then have "sint (speedX s) = 0" by simp
    then show False using vx bmx by (simp split: if_splits)
  qed
  have nzy: "speedY s \<noteq> 0"
  proof
    assume "speedY s = 0"
    then have "sint (speedY s) = 0" by simp
    then show False using vy bmy by (simp split: if_splits)
  qed
  have sx: "1 \<le> \<bar>sint (speedX s)\<bar>" "\<bar>sint (speedX s)\<bar> \<le> 5"
    "0 < sint (speedX s) \<longleftrightarrow> odd (sint (draw_signX d))"
    using vx bmx by (simp_all split: if_splits)
  have sy: "1 \<le> \<bar>sint (speedY s)\<bar>" "\<bar>sint (speedY s)\<bar> \<le> 5"
    "0 < sint (speedY s) \<longleftrightarrow> odd (sint (draw_signY d))"
    using vy bmy by (simp_all split: if_splits)
  have px: "0 \<le> sint (rect_x (rect s))" "sint (rect_x (rect s)) + 50 \<le> 800"
    using x bx by simp_all
  have py: "0 \<le> sint (rect_y (rect s))" "sint (rect_y (rect s)) + 50 \<le> 600"
    using y by' by simp_all
  have lf: "100 \<le> sint (lifetime s)" "sint (lifetime s) \<le> 400"
    using life bl by simp_all
  show ?thesis
    using some wh px py sx sy nzx nzy lf tex by blast
qed

text \<open>
  Claim C6. With a non-empty texture registry and non-negative results of \<open>rand()\<close>,
  \<open>spawnSprite\<close> returns a sprite whose 50 by 50 rectangle lies within the 800 by 600
  screen (\<open>0 \<le> x\<close>, \<open>x + 50 \<le> 800\<close>, \<open>0 \<le> y\<close>, \<open>y + 50 \<le> 600\<close>), whose speed on each axis
  has magnitude 1 to 5 and a sign decided by a draw of its own (so neither is zero), whose
  lifetime is between 100 and 400, and whose texture is an entry of the registry.
\<close>

theorem spawnSprite_in_range:
  assumes "textures \<noteq> []" "draws_nonneg d"
  shows "\<exists>s. spawnSprite textures d = Some s
     \<and> rect_w (rect s) = 50 \<and> rect_h (rect s) = 50
     \<and> 0 \<le> sint (rect_x (rect s)) \<and> sint (rect_x (rect s)) + 50 \<le> 800
     \<and> 0 \<le> sint (rect_y (rect s)) \<and> sint (rect_y (rect s)) + 50 \<le> 600
     \<and> 1 \<le> \<bar>sint (speedX s)\<bar> \<and> \<bar>sint (speedX s)\<bar> \<le> 5
     \<and> 1 \<le> \<bar>sint (speedY s)\<bar> \<and> \<bar>sint (speedY s)\<bar> \<le> 5
     \<and> (0 < sint (speedX s) \<longleftrightarrow> odd (sint (draw_signX d)))
     \<and> (0 < sint (speedY s) \<longleftrightarrow> odd (sint (draw_signY d)))
     \<and> speedX s \<noteq> 0 \<and> speedY s \<noteq> 0
     \<and> 100 \<le> sint (lifetime s) \<and> sint (lifetime s) \<le> 400
     \<and> texture s \<in> set textures"
  using spawnSprite_facts [OF assms] .

theorem spawnSprite_in_range_witness:
  "[1, 2, 3] \<noteq> ([] :: texture list)
   \<and> draws_nonneg \<lparr>draw_x = 12345, draw_y = 6789, draw_magX = 7, draw_signX = 4,
        draw_magY = 3, draw_signY = 9, draw_lifetime = 1000, draw_texture = 5\<rparr>
   \<and> (\<exists>s. spawnSprite [1, 2, 3] \<lparr>draw_x = 12345, draw_y = 6789, draw_magX = 7, draw_signX = 4,
        draw_magY = 3, draw_signY = 9, draw_lifetime = 1000, draw_texture = 5\<rparr> = Some s
        \<and> speedX s \<noteq> 0 \<and> speedY s \<noteq> 0 \<and> texture s \<in> set [1, 2, 3])"
proof -
  have a: "[1, 2, 3] \<noteq> ([] :: texture list)" by simp
  have b: "draws_nonneg \<lparr>draw_x = 12345, draw_y = 6789, draw_magX = 7, draw_signX = 4,
        draw_magY = 3, draw_signY = 9, draw_lifetime = 1000, draw_texture = 5\<rparr>"
    by (simp add: draws_nonneg_def)
  from spawnSprite_in_range [OF a b] a b show ?thesis by blast
qed

subsection \<open>The collision loops\<close>

lemma negate_speedX_nth:
  "k < length v \<Longrightarrow> negate_speedX k v ! k = (v ! k)\<lparr>speedX := - speedX (v ! k)\<rparr>"
  "m \<noteq> k \<Longrightarrow> negate_speedX k v ! m = v ! m"
  "length (negate_speedX k v) = length v"
  by (simp_all add: negate_speedX_def)

lemma negate_speedY_nth:
  "k < length v \<Longrightarrow> negate_speedY k v ! k = (v ! k)\<lparr>speedY := - speedY (v ! k)\<rparr>"
  "m \<noteq> k \<Longrightarrow> negate_speedY k v ! m = v ! m"
  "length (negate_speedY k v) = length v"
  by (simp_all add: negate_speedY_def)

lemma move_x_nth:
  "k < length v \<Longrightarrow> move_x k d v ! k = (v ! k)\<lparr>rect := (rect (v ! k))\<lparr>rect_x := rect_x (rect (v ! k)) + d\<rparr>\<rparr>"
  "m \<noteq> k \<Longrightarrow> move_x k d v ! m = v ! m"
  "length (move_x k d v) = length v"
  by (simp_all add: move_x_def)

lemma move_y_nth:
  "k < length v \<Longrightarrow> move_y k d v ! k = (v ! k)\<lparr>rect := (rect (v ! k))\<lparr>rect_y := rect_y (rect (v ! k)) + d\<rparr>\<rparr>"
  "m \<noteq> k \<Longrightarrow> move_y k d v ! m = v ! m"
  "length (move_y k d v) = length v"
  by (simp_all add: move_y_def)

lemma separate_x_nth:
  assumes "i < length v" "j < length v" "i \<noteq> j"
  shows "separate_x i j v ! i = (v ! i)\<lparr>rect := (rect (v ! i))\<lparr>rect_x := rect_x (rect (v ! i))
            + (if rect_x (rect (v ! i)) <s rect_x (rect (v ! j)) then - 1 else 1)\<rparr>\<rparr>"
    and "separate_x i j v ! j = (v ! j)\<lparr>rect := (rect (v ! j))\<lparr>rect_x := rect_x (rect (v ! j))
            + (if rect_x (rect (v ! i)) <s rect_x (rect (v ! j)) then 1 else - 1)\<rparr>\<rparr>"
  using assms by (simp_all add: separate_x_def move_x_nth)

lemma separate_x_other:
  "m \<noteq> i \<Longrightarrow> m \<noteq> j \<Longrightarrow> separate_x i j v ! m = v ! m"
  "length (separate_x i j v) = length v"
  by (simp_all add: separate_x_def move_x_nth)

lemma separate_y_nth:
  assumes "i < length v" "j < length v" "i \<noteq> j"
  shows "separate_y i j v ! i = (v ! i)\<lparr>rect := (rect (v ! i))\<lparr>rect_y := rect_y (rect (v ! i))
            + (if rect_y (rect (v ! i)) <s rect_y (rect (v ! j)) then - 1 else 1)\<rparr>\<rparr>"
    and "separate_y i j v ! j = (v ! j)\<lparr>rect := (rect (v ! j))\<lparr>rect_y := rect_y (rect (v ! j))
            + (if rect_y (rect (v ! i)) <s rect_y (rect (v ! j)) then 1 else - 1)\<rparr>\<rparr>"
  using assms by (simp_all add: separate_y_def move_y_nth)

lemma separate_y_other:
  "m \<noteq> i \<Longrightarrow> m \<noteq> j \<Longrightarrow> separate_y i j v ! m = v ! m"
  "length (separate_y i j v) = length v"
  by (simp_all add: separate_y_def move_y_nth)


lemmas collision_step_nth =
  negate_speedX_nth negate_speedY_nth separate_x_nth separate_x_other
  separate_y_nth separate_y_other

lemma resolve_collision_other:
  assumes "k \<noteq> i" "k \<noteq> j"
  shows "resolve_collision i j v ! k = v ! k"
  using assms by (simp add: resolve_collision_def collision_step_nth)

lemma resolve_collision_first:
  assumes "i < length v" "j < length v" "i \<noteq> j"
  shows "resolve_collision i j v ! i =
     (v ! i)\<lparr>
        rect := (rect (v ! i))\<lparr>
          rect_x := rect_x (rect (v ! i))
                    + (if rect_x (rect (v ! i)) <s rect_x (rect (v ! j)) then - 1 else 1),
          rect_y := rect_y (rect (v ! i))
                    + (if rect_y (rect (v ! i)) <s rect_y (rect (v ! j)) then - 1 else 1)\<rparr>,
        speedX := - speedX (v ! i),
        speedY := - speedY (v ! i)\<rparr>"
proof -
  define u where "u = negate_speedY j (negate_speedX j (negate_speedY i (negate_speedX i v)))"
  have len: "length u = length v"
    by (simp add: u_def collision_step_nth)
  have ui: "u ! i = (v ! i)\<lparr>speedX := - speedX (v ! i), speedY := - speedY (v ! i)\<rparr>"
    using assms by (simp add: u_def collision_step_nth)
  have uj: "u ! j = (v ! j)\<lparr>speedX := - speedX (v ! j), speedY := - speedY (v ! j)\<rparr>"
    using assms by (simp add: u_def collision_step_nth)
  define t where "t = separate_x i j u"
  have tlen: "length t = length v"
    by (simp add: t_def len collision_step_nth)
  have ti: "t ! i = (u ! i)\<lparr>rect := (rect (u ! i))\<lparr>rect_x := rect_x (rect (u ! i))
            + (if rect_x (rect (u ! i)) <s rect_x (rect (u ! j)) then - 1 else 1)\<rparr>\<rparr>"
    unfolding t_def using assms len by (intro separate_x_nth) simp_all
  have tj: "t ! j = (u ! j)\<lparr>rect := (rect (u ! j))\<lparr>rect_x := rect_x (rect (u ! j))
            + (if rect_x (rect (u ! i)) <s rect_x (rect (u ! j)) then 1 else - 1)\<rparr>\<rparr>"
    unfolding t_def using assms len by (intro separate_x_nth) simp_all
  have "resolve_collision i j v ! i = separate_y i j t ! i"
    by (simp add: resolve_collision_def t_def u_def)
  also have "\<dots> = (t ! i)\<lparr>rect := (rect (t ! i))\<lparr>rect_y := rect_y (rect (t ! i))
            + (if rect_y (rect (t ! i)) <s rect_y (rect (t ! j)) then - 1 else 1)\<rparr>\<rparr>"
    using assms tlen by (intro separate_y_nth) simp_all
  finally show ?thesis
    by (simp add: ti tj ui uj)
qed

lemma resolve_collision_second:
  assumes "i < length v" "j < length v" "i \<noteq> j"
  shows "resolve_collision i j v ! j =
     (v ! j)\<lparr>
        rect := (rect (v ! j))\<lparr>
          rect_x := rect_x (rect (v ! j))
                    + (if rect_x (rect (v ! i)) <s rect_x (rect (v ! j)) then 1 else - 1),
          rect_y := rect_y (rect (v ! j))
                    + (if rect_y (rect (v ! i)) <s rect_y (rect (v ! j)) then 1 else - 1)\<rparr>,
        speedX := - speedX (v ! j),
        speedY := - speedY (v ! j)\<rparr>"
proof -
  define u where "u = negate_speedY j (negate_speedX j (negate_speedY i (negate_speedX i v)))"
  have len: "length u = length v"
    by (simp add: u_def collision_step_nth)
  have ui: "u ! i = (v ! i)\<lparr>speedX := - speedX (v ! i), speedY := - speedY (v ! i)\<rparr>"
    using assms by (simp add: u_def collision_step_nth)
  have uj: "u ! j = (v ! j)\<lparr>speedX := - speedX (v ! j), speedY := - speedY (v ! j)\<rparr>"
    using assms by (simp add: u_def collision_step_nth)
  define t where "t = separate_x i j u"
  have tlen: "length t = length v"
    by (simp add: t_def len collision_step_nth)
  have ti: "t ! i = (u ! i)\<lparr>rect := (rect (u ! i))\<lparr>rect_x := rect_x (rect (u ! i))
            + (if rect_x (rect (u ! i)) <s rect_x (rect (u ! j)) then - 1 else 1)\<rparr>\<rparr>"
    unfolding t_def using assms len by (intro separate_x_nth) simp_all
  have tj: "t ! j = (u ! j)\<lparr>rect := (rect (u ! j))\<lparr>rect_x := rect_x (rect (u ! j))
            + (if rect_x (rect (u ! i)) <s rect_x (rect (u ! j)) then 1 else - 1)\<rparr>\<rparr>"
    unfolding t_def using assms len by (intro separate_x_nth) simp_all
  have "resolve_collision i j v ! j = separate_y i j t ! j"
    by (simp add: resolve_collision_def t_def u_def)
  also have "\<dots> = (t ! j)\<lparr>rect := (rect (t ! j))\<lparr>rect_y := rect_y (rect (t ! j))
            + (if rect_y (rect (t ! i)) <s rect_y (rect (t ! j)) then 1 else - 1)\<rparr>\<rparr>"
    using assms tlen by (intro separate_y_nth) simp_all
  finally show ?thesis
    by (simp add: ti tj ui uj)
qed


lemma resolve_collision_lifetime:
  assumes "i < length v" "j < length v" "i \<noteq> j"
  shows "lifetime (resolve_collision i j v ! k) = lifetime (v ! k)"
proof -
  consider "k = i" | "k = j" | "k \<noteq> i" "k \<noteq> j" by blast
  then show ?thesis
  proof cases
    case 1
    then show ?thesis using assms by (simp add: resolve_collision_first)
  next
    case 2
    then show ?thesis using assms by (simp add: resolve_collision_second)
  next
    case 3
    then show ?thesis by (simp add: resolve_collision_other)
  qed
qed

lemma visit_pair_lifetime:
  assumes "i < j" "j < length v"
  shows "map lifetime (visit_pair i j v) = map lifetime v"
proof (rule nth_equalityI)
  show "length (map lifetime (visit_pair i j v)) = length (map lifetime v)" by simp
next
  fix k assume "k < length (map lifetime (visit_pair i j v))"
  then have k: "k < length v" by simp
  have "lifetime (visit_pair i j v ! k) = lifetime (v ! k)"
    using assms by (simp add: visit_pair_def resolve_collision_lifetime)
  then show "map lifetime (visit_pair i j v) ! k = map lifetime v ! k"
    using k by simp
qed

lemma collide_inner_invariant:
  assumes step: "\<And>i j v. i < j \<Longrightarrow> j < length v \<Longrightarrow> Q v \<Longrightarrow> Q (visit_pair i j v)"
  shows "i < j \<Longrightarrow> Q v \<Longrightarrow> Q (collide_inner i j v)"
proof (induction i j v rule: collide_inner.induct)
  case (1 i j v)
  show ?case
  proof (cases "j < length v")
    case True
    have "Q (visit_pair i j v)"
      using step "1.prems" True by blast
    then have "Q (collide_inner i (j + 1) (visit_pair i j v))"
      using "1.IH" True "1.prems" by simp
    then show ?thesis
      using True by (subst collide_inner.simps) simp
  next
    case False
    then show ?thesis
      using "1.prems" by (subst collide_inner.simps) simp
  qed
qed

lemma collide_outer_invariant:
  assumes step: "\<And>i j v. i < j \<Longrightarrow> j < length v \<Longrightarrow> Q v \<Longrightarrow> Q (visit_pair i j v)"
  shows "Q v \<Longrightarrow> Q (collide_outer i v)"
proof (induction i v rule: collide_outer.induct)
  case (1 i v)
  show ?case
  proof (cases "i < length v")
    case True
    have "Q (collide_inner i (i + 1) v)"
      using collide_inner_invariant [of Q i "i + 1" v] step "1.prems" by simp
    then have "Q (collide_outer (i + 1) (collide_inner i (i + 1) v))"
      using "1.IH" True by simp
    then show ?thesis
      using True by (subst collide_outer.simps) simp
  next
    case False
    then show ?thesis
      using "1.prems" by (subst collide_outer.simps) simp
  qed
qed

lemma length_collide_outer [simp]: "length (collide_outer i v) = length v"
  using collide_outer_invariant [of "\<lambda>u. length u = length v" v i] by simp

lemma collide_outer_lifetime: "map lifetime (collide_outer i v) = map lifetime v"
  using collide_outer_invariant [of "\<lambda>u. map lifetime u = map lifetime v" v i]
  by (simp add: visit_pair_lifetime)

lemma resolve_collision_speeds_nonzero:
  assumes "i < length v" "j < length v" "i \<noteq> j" "speeds_nonzero (v ! i)" "speeds_nonzero (v ! j)"
    "speeds_nonzero (v ! k)"
  shows "speeds_nonzero (resolve_collision i j v ! k)"
proof -
  consider "k = i" | "k = j" | "k \<noteq> i" "k \<noteq> j" by blast
  then show ?thesis
  proof cases
    case 1
    then show ?thesis using assms by (simp add: resolve_collision_first speeds_nonzero_def)
  next
    case 2
    then show ?thesis using assms by (simp add: resolve_collision_second speeds_nonzero_def)
  next
    case 3
    then show ?thesis using assms by (simp add: resolve_collision_other)
  qed
qed

lemma visit_pair_speeds_nonzero:
  assumes "i < j" "j < length v" "list_all speeds_nonzero v"
  shows "list_all speeds_nonzero (visit_pair i j v)"
  using assms
  by (simp add: visit_pair_def list_all_length resolve_collision_speeds_nonzero)

lemma collide_outer_speeds_nonzero:
  "list_all speeds_nonzero v \<Longrightarrow> list_all speeds_nonzero (collide_outer i v)"
  using collide_outer_invariant [of "list_all speeds_nonzero" v i]
  by (simp add: visit_pair_speeds_nonzero)

lemma fold_pairs:
  "fold (\<lambda>i. fold (visit_pair i) (js i)) is v
     = fold (\<lambda>(i, j). visit_pair i j) (concat (map (\<lambda>i. map (Pair i) (js i)) is)) v"
  by (induction "is" arbitrary: v) (simp_all add: fold_map comp_def)

lemma pairs_set:
  "set (concat (map (\<lambda>i. map (Pair i) [i + 1..<n]) [0..<n])) = {(i, j). i < j \<and> j < n}"
proof (rule set_eqI)
  fix p :: "nat \<times> nat"
  obtain a b where p: "p = (a, b)" by (cases p)
  show "p \<in> set (concat (map (\<lambda>i. map (Pair i) [i + 1..<n]) [0..<n]))
          \<longleftrightarrow> p \<in> {(i, j). i < j \<and> j < n}"
    unfolding p by (auto simp: image_iff)
qed

lemma pairs_distinct_general:
  "distinct is \<Longrightarrow> (\<And>i. distinct (f i)) \<Longrightarrow> distinct (concat (map (\<lambda>i. map (Pair i) (f i)) is))"
  by (induction "is") (auto simp: distinct_map inj_on_def)

lemma pairs_distinct:
  "distinct (concat (map (\<lambda>i. map (Pair i) [i + 1..<n]) [0..<n]))"
  by (rule pairs_distinct_general) simp_all

subsection \<open>Lifetimes\<close>

lemma sint_c_mod:
  assumes "0 < sint n"
  shows "sint (c_mod r n) = sint r smod sint n"
proof -
  have "\<bar>sint r smod sint n\<bar> < sint n"
    using assms by (simp add: signed_modulo_int_def abs_mult abs_sgn_eq)
  with sint_cint_range [of n]
  have "- 2147483648 \<le> sint r smod sint n" "sint r smod sint n \<le> 2147483647"
    by linarith+
  then have "signed_take_bit 31 (sint r smod sint n) = sint r smod sint n"
    by (simp add: signed_take_bit_int_eq_self_iff)
  then show ?thesis by (simp add: c_mod_def sint_sbintrunc')
qed

lemma smod_bound:
  fixes k l :: int
  assumes "0 < l"
  shows "- l < k smod l" "k smod l < l"
proof -
  have "\<bar>k smod l\<bar> < l"
    using assms by (simp add: signed_modulo_int_def abs_mult abs_sgn_eq)
  then show "- l < k smod l" "k smod l < l" by linarith+
qed

lemma spawn_lifetime_bound:
  "- 200 < sint (c_mod r 300 + 100)" "sint (c_mod r 300 + 100) < 400"
proof -
  have m: "sint (c_mod r 300) = sint r smod 300"
    by (simp add: sint_c_mod)
  have b: "- 300 < sint r smod 300" "sint r smod 300 < 300"
    using smod_bound [of 300 "sint r"] by simp_all
  have "sint (c_mod r 300 + 100) = sint (c_mod r 300) + 100"
    using m b by (simp add: sint_add_no_overflow)
  then show "- 200 < sint (c_mod r 300 + 100)" "sint (c_mod r 300 + 100) < 400"
    using m b by simp_all
qed

lemma lifetime_update_sprite [simp]: "lifetime (update_sprite disp s) = lifetime s - 1"
  by (simp add: update_sprite_def bounce_def integrate_def Let_def)

lemma simulate_lifetime_word:
  "map lifetime (simulate disp v) = filter (\<lambda>l. 0 < sint l) (map (\<lambda>s. lifetime s - 1) v)"
proof -
  have moved: "map lifetime (collide_outer 0 (update_loop disp 0 v)) = map (\<lambda>s. lifetime s - 1) v"
    by (simp add: collide_outer_lifetime update_loop_map)
  have "map lifetime (simulate disp v)
          = filter (\<lambda>l. 0 < sint l) (map lifetime (collide_outer 0 (update_loop disp 0 v)))"
    by (simp add: simulate_def expire_loop_filter filter_map comp_def)
  then show ?thesis
    by (simp only: moved)
qed

lemma sint_pred:
  fixes l :: cint
  assumes "- 2147483648 < sint l"
  shows "sint (l - 1) = sint l - 1"
  using assms sint_cint_range [of l] sint_sub_no_overflow [of l 1] by simp

lemma simulate_lifetime_sint:
  assumes "\<forall>s \<in> set v. - 2147483648 < sint (lifetime s)"
  shows "map (\<lambda>s. sint (lifetime s)) (simulate disp v)
           = map (\<lambda>l. l - 1) (filter (\<lambda>l. 1 < l) (map (\<lambda>s. sint (lifetime s)) v))"
proof -
  have "map (\<lambda>s. sint (lifetime s)) (simulate disp v) = map sint (map lifetime (simulate disp v))"
    by simp
  also have "\<dots> = map sint (filter (\<lambda>l. 0 < sint l) (map (\<lambda>s. lifetime s - 1) v))"
    by (simp only: simulate_lifetime_word)
  also have "\<dots> = map (\<lambda>l. l - 1) (filter (\<lambda>l. 1 < l) (map (\<lambda>s. sint (lifetime s)) v))"
    using assms
  proof (induction v)
    case Nil
    then show ?case by simp
  next
    case (Cons s v)
    then show ?case by (simp add: sint_pred)
  qed
  finally show ?thesis .
qed


lemma lifetimes_append [simp]: "lifetimes (u @ v) = lifetimes u @ lifetimes v"
  by (simp add: lifetimes_def)

lemma simulate_positive: "s \<in> set (simulate disp v) \<Longrightarrow> 0 < sint (lifetime s)"
  by (simp add: simulate_def expire_loop_filter)

lemma spawn_gate_appends:
  assumes "textures \<noteq> []"
  shows "\<exists>st1 extra. spawn_gate textures inp st = Some st1
           \<and> sprites st1 = sprites st @ extra
           \<and> (\<forall>s \<in> set extra. - 200 < sint (lifetime s))"
proof (cases "30 <s (case slider inp of None \<Rightarrow> spawnTimer st | Some t \<Rightarrow> t) + 1")
  case True
  obtain s where s: "spawnSprite textures (draws inp) = Some s"
    using assms by (simp add: spawnSprite_def)
  then have "lifetime s = c_mod (draw_lifetime (draws inp)) 300 + 100"
    using assms by (auto simp: spawnSprite_def)
  then have "- 200 < sint (lifetime s)"
    using spawn_lifetime_bound(1) by simp
  then show ?thesis
    using True s by (simp add: spawn_gate_def Let_def)
next
  case False
  then show ?thesis
    by (simp add: spawn_gate_def Let_def)
qed

lemma shift_filter:
  fixes k :: int
  assumes "0 \<le> k"
  shows "map (\<lambda>l. l - k) (filter (\<lambda>l. k < l) (map (\<lambda>l. l - 1) (filter (\<lambda>l. 1 < l) L)))
           = map (\<lambda>l. l - (k + 1)) (filter (\<lambda>l. k + 1 < l) L)"
  using assms by (induction L) auto

lemma frame_lifetimes:
  assumes "textures \<noteq> []" "\<forall>s \<in> set (sprites st). 0 < sint (lifetime s)"
  shows "\<exists>st1 news. frame textures inp st = Some st1
           \<and> lifetimes (sprites st1)
               = map (\<lambda>l. l - 1) (filter (\<lambda>l. 1 < l) (lifetimes (sprites st))) @ news
           \<and> (\<forall>s \<in> set (sprites st1). 0 < sint (lifetime s))"
proof -
  obtain g extra where g: "spawn_gate textures inp st = Some g"
    and app: "sprites g = sprites st @ extra"
    and ex: "\<forall>s \<in> set extra. - 200 < sint (lifetime s)"
    using spawn_gate_appends [OF assms(1)] by blast
  define st1 where "st1 = g\<lparr>sprites := simulate (displacement inp) (sprites g)\<rparr>"
  have fr: "frame textures inp st = Some st1"
    by (simp add: frame_def g st1_def)
  have "\<forall>s \<in> set (sprites g). - 2147483648 < sint (lifetime s)"
    using assms(2) ex app by fastforce
  then have "lifetimes (sprites st1)
      = map (\<lambda>l. l - 1) (filter (\<lambda>l. 1 < l) (lifetimes (sprites g)))"
    using simulate_lifetime_sint [of "sprites g" "displacement inp"]
    by (simp add: st1_def lifetimes_def)
  then have "lifetimes (sprites st1)
      = map (\<lambda>l. l - 1) (filter (\<lambda>l. 1 < l) (lifetimes (sprites st)))
        @ map (\<lambda>l. l - 1) (filter (\<lambda>l. 1 < l) (lifetimes extra))"
    by (simp add: app)
  moreover have "\<forall>s \<in> set (sprites st1). 0 < sint (lifetime s)"
    using simulate_positive by (auto simp: st1_def)
  ultimately show ?thesis
    using fr by blast
qed

lemma run_lifetimes:
  assumes "textures \<noteq> []" "\<forall>s \<in> set (sprites st). 0 < sint (lifetime s)"
  shows "\<exists>st' news. run textures inps st = Some st'
           \<and> lifetimes (sprites st')
               = map (\<lambda>l. l - int (length inps))
                     (filter (\<lambda>l. int (length inps) < l) (lifetimes (sprites st))) @ news
           \<and> (\<forall>s \<in> set (sprites st'). 0 < sint (lifetime s))"
  using assms(2)
proof (induction inps arbitrary: st)
  case Nil
  have "filter (\<lambda>l. 0 < l) (lifetimes (sprites st)) = lifetimes (sprites st)"
    using Nil by (simp add: lifetimes_def)
  then show ?case
    using Nil by simp
next
  case (Cons inp inps)
  obtain st1 news1 where fr: "frame textures inp st = Some st1"
    and l1: "lifetimes (sprites st1)
               = map (\<lambda>l. l - 1) (filter (\<lambda>l. 1 < l) (lifetimes (sprites st))) @ news1"
    and pos1: "\<forall>s \<in> set (sprites st1). 0 < sint (lifetime s)"
    using frame_lifetimes [OF assms(1) Cons.prems] by blast
  obtain st' news where r: "run textures inps st1 = Some st'"
    and l': "lifetimes (sprites st')
               = map (\<lambda>l. l - int (length inps))
                     (filter (\<lambda>l. int (length inps) < l) (lifetimes (sprites st1))) @ news"
    and pos': "\<forall>s \<in> set (sprites st'). 0 < sint (lifetime s)"
    using Cons.IH [OF pos1] by blast
  have "lifetimes (sprites st')
      = map (\<lambda>l. l - (int (length inps) + 1))
            (filter (\<lambda>l. int (length inps) + 1 < l) (lifetimes (sprites st)))
        @ (map (\<lambda>l. l - int (length inps)) (filter (\<lambda>l. int (length inps) < l) news1) @ news)"
    unfolding l' l1 using shift_filter [of "int (length inps)" "lifetimes (sprites st)"]
    by simp
  then have "lifetimes (sprites st')
      = map (\<lambda>l. l - int (length (inp # inps)))
            (filter (\<lambda>l. int (length (inp # inps)) < l) (lifetimes (sprites st)))
        @ (map (\<lambda>l. l - int (length inps)) (filter (\<lambda>l. int (length inps) < l) news1) @ news)"
    by (simp add: add.commute)
  moreover have "run textures (inp # inps) st = Some st'"
    by (simp add: fr r)
  ultimately show ?case
    using pos' by blast
qed

text \<open>
  Claim C1. In one step every sprite's lifetime goes down by exactly one: the update and
  collision loops leave the collection with each lifetime decremented once, and the
  expiration only removes sprites. Over successive frames, from a state whose lifetimes are
  positive (as they are after every frame): after \<open>k\<close> frames the sprites whose initial
  lifetime exceeds \<open>k\<close> are still there, in their order, each with its initial lifetime
  minus \<open>k\<close>, followed by the sprites spawned since; and at the decrement of frame
  \<open>k + 1\<close>, before its expiration, each of those has its initial lifetime minus \<open>k + 1\<close>
  (which covers the frame in which a lifetime reaches zero).
\<close>

theorem lifetime_decreases_by_one_per_step:
  assumes "textures \<noteq> []" and "\<forall>s \<in> set (sprites st). 0 < sint (lifetime s)"
  shows "map lifetime (collide_outer 0 (update_loop disp 0 v)) = map (\<lambda>s. lifetime s - 1) v
     \<and> map lifetime (simulate disp v)
         = filter (\<lambda>l. 0 < sint l) (map (\<lambda>s. lifetime s - 1) v)
     \<and> (\<exists>st' spawned. run textures inps st = Some st'
           \<and> lifetimes (sprites st')
               = map (\<lambda>l. l - int (length inps))
                     (filter (\<lambda>l. int (length inps) < l) (lifetimes (sprites st))) @ spawned)
     \<and> (\<exists>st' g spawned. run textures inps st = Some st'
           \<and> spawn_gate textures inp st' = Some g
           \<and> lifetimes (collide_outer 0 (update_loop (displacement inp) 0 (sprites g)))
               = map (\<lambda>l. l - (int (length inps) + 1))
                     (filter (\<lambda>l. int (length inps) < l) (lifetimes (sprites st))) @ spawned)"
proof -
  have one: "map lifetime (collide_outer 0 (update_loop disp 0 v)) = map (\<lambda>s. lifetime s - 1) v"
    for disp v
    by (simp add: collide_outer_lifetime update_loop_map)
  obtain st' news where r: "run textures inps st = Some st'"
    and l': "lifetimes (sprites st')
               = map (\<lambda>l. l - int (length inps))
                     (filter (\<lambda>l. int (length inps) < l) (lifetimes (sprites st))) @ news"
    and pos': "\<forall>s \<in> set (sprites st'). 0 < sint (lifetime s)"
    using run_lifetimes [OF assms] by blast
  obtain g extra where g: "spawn_gate textures inp st' = Some g"
    and app: "sprites g = sprites st' @ extra"
    and ex: "\<forall>s \<in> set extra. - 200 < sint (lifetime s)"
    using spawn_gate_appends [OF assms(1)] by blast
  have "\<forall>s \<in> set (sprites g). - 2147483648 < sint (lifetime s)"
    using pos' ex app by fastforce
  then have "map sint (map (\<lambda>s. lifetime s - 1) (sprites g))
               = map (\<lambda>l. l - 1) (lifetimes (sprites g))"
    by (simp add: lifetimes_def sint_pred)
  then have "lifetimes (collide_outer 0 (update_loop (displacement inp) 0 (sprites g)))
               = map (\<lambda>l. l - 1) (lifetimes (sprites g))"
    using one [of "displacement inp" "sprites g"]
    by (simp add: lifetimes_def flip: map_map [of sint lifetime, unfolded comp_def])
  then have "lifetimes (collide_outer 0 (update_loop (displacement inp) 0 (sprites g)))
               = map (\<lambda>l. l - (int (length inps) + 1))
                     (filter (\<lambda>l. int (length inps) < l) (lifetimes (sprites st)))
                 @ (map (\<lambda>l. l - 1) news @ map (\<lambda>l. l - 1) (lifetimes extra))"
    by (simp add: app l' algebra_simps)
  then show ?thesis
    using one simulate_lifetime_word r l' g by blast
qed


theorem lifetime_decreases_by_one_per_step_witness:
  "[1] \<noteq> ([] :: texture list)
   \<and> lifetimes (sprites \<lparr>sprites = [example_sprite], spawnTimer = 0\<rparr>) = [5]
   \<and> (\<exists>st' spawned. run [1] [example_input, example_input] \<lparr>sprites = [example_sprite], spawnTimer = 0\<rparr> = Some st'
         \<and> lifetimes (sprites st') = 3 # spawned)"
proof -
  have a: "[1] \<noteq> ([] :: texture list)" by simp
  have b: "\<forall>s \<in> set (sprites \<lparr>sprites = [example_sprite], spawnTimer = 0\<rparr>). 0 < sint (lifetime s)"
    by (simp add: example_sprite_def)
  have c: "lifetimes (sprites \<lparr>sprites = [example_sprite], spawnTimer = 0\<rparr>) = [5]"
    by (simp add: lifetimes_def example_sprite_def)
  from lifetime_decreases_by_one_per_step [OF a b, of _ _ "[example_input, example_input]"]
  obtain st' spawned where
    "run [1] [example_input, example_input] \<lparr>sprites = [example_sprite], spawnTimer = 0\<rparr> = Some st'"
    "lifetimes (sprites st')
       = map (\<lambda>l. l - int (length [example_input, example_input]))
             (filter (\<lambda>l. int (length [example_input, example_input]) < l)
                (lifetimes (sprites \<lparr>sprites = [example_sprite], spawnTimer = 0\<rparr>))) @ spawned"
    by blast
  then show ?thesis
    using a c by simp
qed

subsection \<open>Speeds\<close>

lemma speed_integrate [simp]:
  "speedX (integrate disp s) = speedX s" "speedY (integrate disp s) = speedY s"
  by (simp_all add: integrate_def Let_def)

lemma speed_bounce:
  "speedX (bounce s) = speedX s \<or> speedX (bounce s) = - speedX s"
  "speedY (bounce s) = speedY s \<or> speedY (bounce s) = - speedY s"
  by (simp_all add: bounce_def Let_def)

lemma speed_update_sprite:
  "speedX (update_sprite disp s) = speedX s \<or> speedX (update_sprite disp s) = - speedX s"
  "speedY (update_sprite disp s) = speedY s \<or> speedY (update_sprite disp s) = - speedY s"
  using speed_bounce [of "integrate disp s"] by (simp_all add: update_sprite_def Let_def)

lemma speeds_nonzero_update_sprite:
  "speeds_nonzero s \<Longrightarrow> speeds_nonzero (update_sprite disp s)"
  using speed_update_sprite [of disp s] by (auto simp: speeds_nonzero_def)

lemma resolve_collision_speed:
  assumes "i < length u" "j < length u" "i \<noteq> j"
  shows "speedX (resolve_collision i j u ! k) = speedX (u ! k)
           \<or> speedX (resolve_collision i j u ! k) = - speedX (u ! k)"
    and "speedY (resolve_collision i j u ! k) = speedY (u ! k)
           \<or> speedY (resolve_collision i j u ! k) = - speedY (u ! k)"
proof -
  consider "k = i" | "k = j" | "k \<noteq> i" "k \<noteq> j" by blast
  then have "(speedX (resolve_collision i j u ! k) = speedX (u ! k)
           \<or> speedX (resolve_collision i j u ! k) = - speedX (u ! k))
         \<and> (speedY (resolve_collision i j u ! k) = speedY (u ! k)
           \<or> speedY (resolve_collision i j u ! k) = - speedY (u ! k))"
  proof cases
    case 1
    then show ?thesis using assms by (simp add: resolve_collision_first)
  next
    case 2
    then show ?thesis using assms by (simp add: resolve_collision_second)
  next
    case 3
    then show ?thesis by (simp add: resolve_collision_other)
  qed
  then show "speedX (resolve_collision i j u ! k) = speedX (u ! k)
           \<or> speedX (resolve_collision i j u ! k) = - speedX (u ! k)"
    and "speedY (resolve_collision i j u ! k) = speedY (u ! k)
           \<or> speedY (resolve_collision i j u ! k) = - speedY (u ! k)"
    by simp_all
qed

lemma visit_pair_same_speeds:
  assumes "i < j" "j < length u" "same_speeds_up_to_sign v u"
  shows "same_speeds_up_to_sign v (visit_pair i j u)"
proof (cases "checkCollision (rect (u ! i)) (rect (u ! j))")
  case False
  then show ?thesis using assms by (simp add: visit_pair_def)
next
  case True
  have len: "length u = length v"
    using assms(3) by (simp add: same_speeds_up_to_sign_def)
  have "(speedX (resolve_collision i j u ! k) = speedX (v ! k)
           \<or> speedX (resolve_collision i j u ! k) = - speedX (v ! k))
      \<and> (speedY (resolve_collision i j u ! k) = speedY (v ! k)
           \<or> speedY (resolve_collision i j u ! k) = - speedY (v ! k))"
    if "k < length v" for k
  proof -
    have old: "speedX (u ! k) = speedX (v ! k) \<or> speedX (u ! k) = - speedX (v ! k)"
      "speedY (u ! k) = speedY (v ! k) \<or> speedY (u ! k) = - speedY (v ! k)"
      using assms(3) that by (simp_all add: same_speeds_up_to_sign_def)
    have new: "speedX (resolve_collision i j u ! k) = speedX (u ! k)
           \<or> speedX (resolve_collision i j u ! k) = - speedX (u ! k)"
      "speedY (resolve_collision i j u ! k) = speedY (u ! k)
           \<or> speedY (resolve_collision i j u ! k) = - speedY (u ! k)"
      using assms(1,2) by (simp_all add: resolve_collision_speed)
    show ?thesis
      using old new by auto
  qed
  then show ?thesis
    using True len by (simp add: visit_pair_def same_speeds_up_to_sign_def)
qed

lemma collide_outer_same_speeds: "same_speeds_up_to_sign v (collide_outer i v)"
proof -
  have "same_speeds_up_to_sign v v"
    by (simp add: same_speeds_up_to_sign_def)
  then show ?thesis
    using collide_outer_invariant [of "same_speeds_up_to_sign v" v i]
    by (simp add: visit_pair_same_speeds)
qed

lemma moved_same_speeds:
  "same_speeds_up_to_sign v (collide_outer 0 (update_loop disp 0 v))"
proof -
  have c: "same_speeds_up_to_sign (map (update_sprite disp) v)
             (collide_outer 0 (map (update_sprite disp) v))"
    by (rule collide_outer_same_speeds)
  have "(speedX (collide_outer 0 (map (update_sprite disp) v) ! k) = speedX (v ! k)
           \<or> speedX (collide_outer 0 (map (update_sprite disp) v) ! k) = - speedX (v ! k))
      \<and> (speedY (collide_outer 0 (map (update_sprite disp) v) ! k) = speedY (v ! k)
           \<or> speedY (collide_outer 0 (map (update_sprite disp) v) ! k) = - speedY (v ! k))"
    if "k < length v" for k
  proof -
    have a: "speedX (collide_outer 0 (map (update_sprite disp) v) ! k) = speedX (update_sprite disp (v ! k))
           \<or> speedX (collide_outer 0 (map (update_sprite disp) v) ! k) = - speedX (update_sprite disp (v ! k))"
      "speedY (collide_outer 0 (map (update_sprite disp) v) ! k) = speedY (update_sprite disp (v ! k))
           \<or> speedY (collide_outer 0 (map (update_sprite disp) v) ! k) = - speedY (update_sprite disp (v ! k))"
      using c that by (simp_all add: same_speeds_up_to_sign_def)
    show ?thesis
      using a speed_update_sprite [of disp "v ! k"] by auto
  qed
  then show ?thesis
    by (simp add: same_speeds_up_to_sign_def update_loop_map)
qed

lemma same_speeds_nonzero:
  assumes "same_speeds_up_to_sign v u" "k < length v" "speeds_nonzero (v ! k)"
  shows "speeds_nonzero (u ! k)"
proof -
  have "(speedX (u ! k) = speedX (v ! k) \<or> speedX (u ! k) = - speedX (v ! k))"
    "(speedY (u ! k) = speedY (v ! k) \<or> speedY (u ! k) = - speedY (v ! k))"
    using assms(1,2) by (simp_all add: same_speeds_up_to_sign_def)
  then show ?thesis
    using assms(3) by (auto simp: speeds_nonzero_def)
qed

lemma simulate_speeds_nonzero:
  assumes "list_all speeds_nonzero v"
  shows "list_all speeds_nonzero (simulate disp v)"
proof -
  have "list_all speeds_nonzero (map (update_sprite disp) v)"
    using assms by (simp add: list_all_iff speeds_nonzero_update_sprite)
  then have "list_all speeds_nonzero (collide_outer 0 (update_loop disp 0 v))"
    by (simp add: update_loop_map collide_outer_speeds_nonzero)
  then show ?thesis
    by (simp add: simulate_def expire_loop_filter list_all_iff)
qed

lemma frame_speeds_nonzero:
  assumes "textures \<noteq> []" "draws_nonneg (draws inp)" "list_all speeds_nonzero (sprites st)"
  shows "\<exists>st1. frame textures inp st = Some st1 \<and> list_all speeds_nonzero (sprites st1)"
proof -
  obtain s where s: "spawnSprite textures (draws inp) = Some s" and nz: "speeds_nonzero s"
    using spawnSprite_facts [OF assms(1,2)] by (auto simp: speeds_nonzero_def)
  have "\<exists>g. spawn_gate textures inp st = Some g \<and> list_all speeds_nonzero (sprites g)"
    using s nz assms(3) by (simp add: spawn_gate_def Let_def)
  then obtain g where g: "spawn_gate textures inp st = Some g"
    and gnz: "list_all speeds_nonzero (sprites g)"
    by blast
  show ?thesis
    using g simulate_speeds_nonzero [OF gnz] by (simp add: frame_def)
qed

lemma run_speeds_nonzero:
  assumes "textures \<noteq> []"
  shows "\<forall>inp \<in> set inps. draws_nonneg (draws inp) \<Longrightarrow> list_all speeds_nonzero (sprites st)
    \<Longrightarrow> \<exists>st'. run textures inps st = Some st' \<and> list_all speeds_nonzero (sprites st')"
proof (induction inps arbitrary: st)
  case Nil
  then show ?case by simp
next
  case (Cons inp inps)
  obtain st1 where fr: "frame textures inp st = Some st1"
    and nz1: "list_all speeds_nonzero (sprites st1)"
    using frame_speeds_nonzero [OF assms, of inp st] Cons.prems by auto
  obtain st' where "run textures inps st1 = Some st'" "list_all speeds_nonzero (sprites st')"
    using Cons.IH [OF _ nz1] Cons.prems(1) by auto
  then show ?case
    using fr by simp
qed

text \<open>
  Claim C8. Speeds that are nonzero stay nonzero. Integration changes no speed; the bounce
  and the collision response leave each speed as it is or negate it, so a sprite with
  nonzero speeds on both axes has nonzero speeds on both axes after the update and
  collision loops of a step, and the expiration only removes sprites. Over whole frames,
  spawning included (with non-negative results of \<open>rand()\<close>), a collection in which every
  sprite has nonzero speeds stays such a collection.
\<close>

theorem speeds_stay_nonzero:
  assumes "textures \<noteq> []" "list_all speeds_nonzero (sprites st)"
    and "\<forall>inp \<in> set inps. draws_nonneg (draws inp)"
    and "k < length v" "speeds_nonzero (v ! k)"
  shows "speedX (integrate disp s) = speedX s \<and> speedY (integrate disp s) = speedY s
     \<and> (speedX (bounce s) = speedX s \<or> speedX (bounce s) = - speedX s)
     \<and> (speedY (bounce s) = speedY s \<or> speedY (bounce s) = - speedY s)
     \<and> same_speeds_up_to_sign v (collide_outer 0 v)
     \<and> same_speeds_up_to_sign v (collide_outer 0 (update_loop disp 0 v))
     \<and> speeds_nonzero (collide_outer 0 (update_loop disp 0 v) ! k)
     \<and> simulate disp v
         = filter (\<lambda>s. 0 < sint (lifetime s)) (collide_outer 0 (update_loop disp 0 v))
     \<and> (\<exists>st'. run textures inps st = Some st' \<and> list_all speeds_nonzero (sprites st'))"
proof -
  have "speeds_nonzero (collide_outer 0 (update_loop disp 0 v) ! k)"
    using same_speeds_nonzero [OF moved_same_speeds assms(4,5)] .
  moreover have "simulate disp v
         = filter (\<lambda>s. 0 < sint (lifetime s)) (collide_outer 0 (update_loop disp 0 v))"
    by (simp add: simulate_def expire_loop_filter)
  moreover have "\<exists>st'. run textures inps st = Some st' \<and> list_all speeds_nonzero (sprites st')"
    using run_speeds_nonzero [OF assms(1,3,2)] .
  ultimately show ?thesis
    using speed_bounce [of s] collide_outer_same_speeds [of v 0] moved_same_speeds [of v disp]
    by simp
qed

theorem speeds_stay_nonzero_witness:
  "[1] \<noteq> ([] :: texture list)
   \<and> list_all speeds_nonzero (sprites \<lparr>sprites = [example_sprite], spawnTimer = 30\<rparr>)
   \<and> draws_nonneg (draws example_input)
   \<and> speeds_nonzero ([example_sprite] ! 0)
   \<and> speeds_nonzero (collide_outer 0 (update_loop (\<lambda>v. v) 0 [example_sprite]) ! 0)
   \<and> (\<exists>st'. run [1] [example_input, example_input] \<lparr>sprites = [example_sprite], spawnTimer = 30\<rparr> = Some st'
         \<and> list_all speeds_nonzero (sprites st'))"
proof -
  have a: "[1] \<noteq> ([] :: texture list)" by simp
  have b: "list_all speeds_nonzero (sprites \<lparr>sprites = [example_sprite], spawnTimer = 30\<rparr>)"
    by (simp add: example_sprite_def speeds_nonzero_def)
  have d: "draws_nonneg (draws example_input)"
    by (simp add: example_input_def draws_nonneg_def)
  then have c: "\<forall>inp \<in> set [example_input, example_input]. draws_nonneg (draws inp)"
    by simp
  have e: "0 < length [example_sprite]" by simp
  have f: "speeds_nonzero ([example_sprite] ! 0)"
    by (simp add: example_sprite_def speeds_nonzero_def)
  show ?thesis
    using speeds_stay_nonzero [OF a b c e f, of "\<lambda>v. v"] a b d f by simp
qed

subsection \<open>Collision response\<close>

lemma collide_outer_pairs:
  "collide_outer 0 v
     = fold (\<lambda>(a, b). visit_pair a b) [(a, b). a \<leftarrow> [0..<length v], b \<leftarrow> [a + 1..<length v]] v"
  by (simp add: collide_outer_fold fold_pairs)

text \<open>
  Claim C3. The collision loops visit every pair of indices \<open>i < j\<close> of the collection
  exactly once, in the order of the collection. A visit of a pair for which
  \<open>checkCollision\<close> holds at that moment negates both speeds of both sprites and moves
  them apart by one unit on each axis: on x the sprite with the strictly smaller x moves
  by -1 and the other by +1, and with equal x the first sprite moves by +1 and the second
  by -1; the same on y. Sizes, lifetimes, textures and all other sprites are unchanged; a
  visit of a pair that does not collide changes nothing.
\<close>

theorem collision_response:
  assumes "i < j" "j < length v"
  shows "collide_outer 0 v
           = fold (\<lambda>(a, b). visit_pair a b)
               [(a, b). a \<leftarrow> [0..<length v], b \<leftarrow> [a + 1..<length v]] v
     \<and> distinct [(a, b). a \<leftarrow> [0..<length v], b \<leftarrow> [a + 1..<length v]]
     \<and> set [(a, b). a \<leftarrow> [0..<length v], b \<leftarrow> [a + 1..<length v]]
           = {(a, b). a < b \<and> b < length v}
     \<and> (\<not> checkCollision (rect (v ! i)) (rect (v ! j)) \<longrightarrow> visit_pair i j v = v)
     \<and> (checkCollision (rect (v ! i)) (rect (v ! j)) \<longrightarrow>
          length (visit_pair i j v) = length v
        \<and> (\<forall>k. k \<noteq> i \<and> k \<noteq> j \<longrightarrow> visit_pair i j v ! k = v ! k)
        \<and> speedX (visit_pair i j v ! i) = - speedX (v ! i)
        \<and> speedY (visit_pair i j v ! i) = - speedY (v ! i)
        \<and> speedX (visit_pair i j v ! j) = - speedX (v ! j)
        \<and> speedY (visit_pair i j v ! j) = - speedY (v ! j)
        \<and> (sint (rect_x (rect (v ! i))) < sint (rect_x (rect (v ! j))) \<longrightarrow>
              rect_x (rect (visit_pair i j v ! i)) = rect_x (rect (v ! i)) - 1
            \<and> rect_x (rect (visit_pair i j v ! j)) = rect_x (rect (v ! j)) + 1)
        \<and> (sint (rect_x (rect (v ! j))) < sint (rect_x (rect (v ! i))) \<longrightarrow>
              rect_x (rect (visit_pair i j v ! j)) = rect_x (rect (v ! j)) - 1
            \<and> rect_x (rect (visit_pair i j v ! i)) = rect_x (rect (v ! i)) + 1)
        \<and> (rect_x (rect (v ! i)) = rect_x (rect (v ! j)) \<longrightarrow>
              rect_x (rect (visit_pair i j v ! i)) = rect_x (rect (v ! i)) + 1
            \<and> rect_x (rect (visit_pair i j v ! j)) = rect_x (rect (v ! j)) - 1)
        \<and> (sint (rect_y (rect (v ! i))) < sint (rect_y (rect (v ! j))) \<longrightarrow>
              rect_y (rect (visit_pair i j v ! i)) = rect_y (rect (v ! i)) - 1
            \<and> rect_y (rect (visit_pair i j v ! j)) = rect_y (rect (v ! j)) + 1)
        \<and> (sint (rect_y (rect (v ! j))) < sint (rect_y (rect (v ! i))) \<longrightarrow>
              rect_y (rect (visit_pair i j v ! j)) = rect_y (rect (v ! j)) - 1
            \<and> rect_y (rect (visit_pair i j v ! i)) = rect_y (rect (v ! i)) + 1)
        \<and> (rect_y (rect (v ! i)) = rect_y (rect (v ! j)) \<longrightarrow>
              rect_y (rect (visit_pair i j v ! i)) = rect_y (rect (v ! i)) + 1
            \<and> rect_y (rect (visit_pair i j v ! j)) = rect_y (rect (v ! j)) - 1)
        \<and> rect_w (rect (visit_pair i j v ! i)) = rect_w (rect (v ! i))
        \<and> rect_h (rect (visit_pair i j v ! i)) = rect_h (rect (v ! i))
        \<and> rect_w (rect (visit_pair i j v ! j)) = rect_w (rect (v ! j))
        \<and> rect_h (rect (visit_pair i j v ! j)) = rect_h (rect (v ! j))
        \<and> lifetime (visit_pair i j v ! i) = lifetime (v ! i)
        \<and> lifetime (visit_pair i j v ! j) = lifetime (v ! j)
        \<and> texture (visit_pair i j v ! i) = texture (v ! i)
        \<and> texture (visit_pair i j v ! j) = texture (v ! j))"
proof -
  have ij: "i < length v" "i \<noteq> j"
    using assms by simp_all
  note first = resolve_collision_first [OF ij(1) assms(2) ij(2)]
  note second = resolve_collision_second [OF ij(1) assms(2) ij(2)]
  have miss: "\<not> checkCollision (rect (v ! i)) (rect (v ! j)) \<longrightarrow> visit_pair i j v = v"
    by (simp add: visit_pair_def)
  have hit: "visit_pair i j v = resolve_collision i j v"
    if "checkCollision (rect (v ! i)) (rect (v ! j))"
    using that by (simp add: visit_pair_def)
  have others: "\<forall>k. k \<noteq> i \<and> k \<noteq> j \<longrightarrow> resolve_collision i j v ! k = v ! k"
    by (simp add: resolve_collision_other)
  have speeds: "speedX (resolve_collision i j v ! i) = - speedX (v ! i)"
    "speedY (resolve_collision i j v ! i) = - speedY (v ! i)"
    "speedX (resolve_collision i j v ! j) = - speedX (v ! j)"
    "speedY (resolve_collision i j v ! j) = - speedY (v ! j)"
    by (simp_all add: first second)
  have kept: "rect_w (rect (resolve_collision i j v ! i)) = rect_w (rect (v ! i))"
    "rect_h (rect (resolve_collision i j v ! i)) = rect_h (rect (v ! i))"
    "rect_w (rect (resolve_collision i j v ! j)) = rect_w (rect (v ! j))"
    "rect_h (rect (resolve_collision i j v ! j)) = rect_h (rect (v ! j))"
    "lifetime (resolve_collision i j v ! i) = lifetime (v ! i)"
    "lifetime (resolve_collision i j v ! j) = lifetime (v ! j)"
    "texture (resolve_collision i j v ! i) = texture (v ! i)"
    "texture (resolve_collision i j v ! j) = texture (v ! j)"
    by (simp_all add: first second)
  have xs: "rect_x (rect (resolve_collision i j v ! i)) = rect_x (rect (v ! i))
              + (if sint (rect_x (rect (v ! i))) < sint (rect_x (rect (v ! j))) then - 1 else 1)"
    "rect_x (rect (resolve_collision i j v ! j)) = rect_x (rect (v ! j))
              + (if sint (rect_x (rect (v ! i))) < sint (rect_x (rect (v ! j))) then 1 else - 1)"
    by (simp_all add: first second word_sless_alt)
  have ys: "rect_y (rect (resolve_collision i j v ! i)) = rect_y (rect (v ! i))
              + (if sint (rect_y (rect (v ! i))) < sint (rect_y (rect (v ! j))) then - 1 else 1)"
    "rect_y (rect (resolve_collision i j v ! j)) = rect_y (rect (v ! j))
              + (if sint (rect_y (rect (v ! i))) < sint (rect_y (rect (v ! j))) then 1 else - 1)"
    by (simp_all add: first second word_sless_alt)
  have loop: "collide_outer 0 v
           = fold (\<lambda>(a, b). visit_pair a b)
               [(a, b). a \<leftarrow> [0..<length v], b \<leftarrow> [a + 1..<length v]] v
     \<and> distinct [(a, b). a \<leftarrow> [0..<length v], b \<leftarrow> [a + 1..<length v]]
     \<and> set [(a, b). a \<leftarrow> [0..<length v], b \<leftarrow> [a + 1..<length v]]
           = {(a, b). a < b \<and> b < length v}"
    using collide_outer_pairs [of v] pairs_distinct [of "length v"] pairs_set [of "length v"]
    by simp
  show ?thesis
  proof (cases "checkCollision (rect (v ! i)) (rect (v ! j))")
    case True
    show ?thesis
      unfolding hit [OF True]
      using True loop others speeds kept xs ys by simp
  next
    case False
    then show ?thesis
      using loop miss by simp
  qed
qed

theorem collision_response_witness:
  "(0 :: nat) < 1 \<and> 1 < length [overlap_a, overlap_b]
   \<and> checkCollision (rect ([overlap_a, overlap_b] ! 0)) (rect ([overlap_a, overlap_b] ! 1))
   \<and> speedX (visit_pair 0 1 [overlap_a, overlap_b] ! 0) = - 2
   \<and> speedX (visit_pair 0 1 [overlap_a, overlap_b] ! 1) = 2
   \<and> rect_x (rect (visit_pair 0 1 [overlap_a, overlap_b] ! 0)) = 101
   \<and> rect_x (rect (visit_pair 0 1 [overlap_a, overlap_b] ! 1)) = 99
   \<and> rect_y (rect (visit_pair 0 1 [overlap_a, overlap_b] ! 0)) = 101
   \<and> rect_y (rect (visit_pair 0 1 [overlap_a, overlap_b] ! 1)) = 99"
proof -
  have a: "(0 :: nat) < 1" by simp
  have b: "1 < length [overlap_a, overlap_b]" by simp
  have c: "checkCollision (rect ([overlap_a, overlap_b] ! 0)) (rect ([overlap_a, overlap_b] ! 1))"
    by (simp add: overlap_a_def overlap_b_def checkCollision_def word_sless_alt)
  have x: "rect_x (rect ([overlap_a, overlap_b] ! 0)) = rect_x (rect ([overlap_a, overlap_b] ! 1))"
    and y: "rect_y (rect ([overlap_a, overlap_b] ! 0)) = rect_y (rect ([overlap_a, overlap_b] ! 1))"
    by (simp_all add: overlap_a_def overlap_b_def)
  have vals: "speedX ([overlap_a, overlap_b] ! 0) = 2" "speedX ([overlap_a, overlap_b] ! 1) = - 2"
    "rect_x (rect ([overlap_a, overlap_b] ! 0)) = 100" "rect_x (rect ([overlap_a, overlap_b] ! 1)) = 100"
    "rect_y (rect ([overlap_a, overlap_b] ! 0)) = 100" "rect_y (rect ([overlap_a, overlap_b] ! 1)) = 100"
    by (simp_all add: overlap_a_def overlap_b_def)
  from collision_response [OF a b] c x y
  have "speedX (visit_pair 0 1 [overlap_a, overlap_b] ! 0) = - speedX ([overlap_a, overlap_b] ! 0)"
    "speedX (visit_pair 0 1 [overlap_a, overlap_b] ! 1) = - speedX ([overlap_a, overlap_b] ! 1)"
    "rect_x (rect (visit_pair 0 1 [overlap_a, overlap_b] ! 0)) = rect_x (rect ([overlap_a, overlap_b] ! 0)) + 1"
    "rect_x (rect (visit_pair 0 1 [overlap_a, overlap_b] ! 1)) = rect_x (rect ([overlap_a, overlap_b] ! 1)) - 1"
    "rect_y (rect (visit_pair 0 1 [overlap_a, overlap_b] ! 0)) = rect_y (rect ([overlap_a, overlap_b] ! 0)) + 1"
    "rect_y (rect (visit_pair 0 1 [overlap_a, overlap_b] ! 1)) = rect_y (rect ([overlap_a, overlap_b] ! 1)) - 1"
    by blast+
  then show ?thesis
    unfolding vals using a b c by simp
qed

subsection \<open>Bouncing\<close>

lemma collide_outer_single [simp]: "collide_outer 0 [s] = [s]"
  by (simp add: collide_outer_fold)

lemma update_sprite_rect:
  "rect (update_sprite disp s)
     = (rect s)\<lparr>rect_x := rect_x (rect s) + disp (speedX s),
                rect_y := rect_y (rect s) + disp (speedY s)\<rparr>"
  by (simp add: update_sprite_def bounce_def integrate_def Let_def)

lemma update_sprite_speedX:
  "speedX (update_sprite disp s)
     = (if rect_x (rect (update_sprite disp s)) \<le>s 0
          \<or> SCREEN_WIDTH \<le>s rect_x (rect (update_sprite disp s)) + rect_w (rect s)
        then - speedX s else speedX s)"
  by (simp add: update_sprite_def bounce_def integrate_def Let_def)

lemma update_sprite_speedY:
  "speedY (update_sprite disp s)
     = (if rect_y (rect (update_sprite disp s)) \<le>s 0
          \<or> SCREEN_HEIGHT \<le>s rect_y (rect (update_sprite disp s)) + rect_h (rect s)
        then - speedY s else speedY s)"
  by (simp add: update_sprite_def bounce_def integrate_def Let_def)

lemma update_sprite_texture [simp]: "texture (update_sprite disp s) = texture s"
  by (simp add: update_sprite_def bounce_def integrate_def Let_def)

lemma update_sprite_speedX_sint:
  assumes "rect_no_overflow (rect (update_sprite disp s))"
  shows "speedX (update_sprite disp s)
     = (if sint (rect_x (rect (update_sprite disp s))) \<le> 0
          \<or> 800 \<le> sint (rect_x (rect (update_sprite disp s))) + sint (rect_w (rect s))
        then - speedX s else speedX s)"
proof -
  have w: "rect_w (rect (update_sprite disp s)) = rect_w (rect s)"
    by (simp add: update_sprite_rect)
  have "sint (rect_x (rect (update_sprite disp s)) + rect_w (rect s))
          = sint (rect_x (rect (update_sprite disp s))) + sint (rect_w (rect s))"
    using assms unfolding rect_no_overflow_def w by (intro sint_add_no_overflow) simp_all
  then show ?thesis
    by (subst update_sprite_speedX) (simp add: word_sle_eq SCREEN_WIDTH_def)
qed

lemma update_sprite_speedY_sint:
  assumes "rect_no_overflow (rect (update_sprite disp s))"
  shows "speedY (update_sprite disp s)
     = (if sint (rect_y (rect (update_sprite disp s))) \<le> 0
          \<or> 600 \<le> sint (rect_y (rect (update_sprite disp s))) + sint (rect_h (rect s))
        then - speedY s else speedY s)"
proof -
  have h: "rect_h (rect (update_sprite disp s)) = rect_h (rect s)"
    by (simp add: update_sprite_rect)
  have "sint (rect_y (rect (update_sprite disp s)) + rect_h (rect s))
          = sint (rect_y (rect (update_sprite disp s))) + sint (rect_h (rect s))"
    using assms unfolding rect_no_overflow_def h by (intro sint_add_no_overflow) simp_all
  then show ?thesis
    by (subst update_sprite_speedY) (simp add: word_sle_eq SCREEN_HEIGHT_def)
qed

lemma simulate_single:
  "simulate disp [s] = (if 0 < sint (lifetime s - 1) then [update_sprite disp s] else [])"
  by (simp add: simulate_def update_loop_map expire_loop_filter)

lemma corner_both_flip:
  "speedX (update_sprite (\<lambda>v. v) corner_sprite) = - 3
   \<and> speedY (update_sprite (\<lambda>v. v) corner_sprite) = - 2"
  by (simp add: update_sprite_def bounce_def integrate_def Let_def corner_sprite_def
      SCREEN_WIDTH_def SCREEN_HEIGHT_def word_sle_eq)

lemma SpriteA_step:
  assumes "- 45 \<le> sint (disp 3)" "sint (disp 3) \<le> 2147482802"
  shows "simulate disp [SpriteA]
    = [\<lparr>rect = \<lparr>rect_x = 795 + disp 3, rect_y = 300 + disp 0, rect_w = 50, rect_h = 50\<rparr>,
        speedX = - 3, speedY = 0, lifetime = 4, texture = 1\<rparr>]"
proof -
  have x: "sint (795 + disp 3) = 795 + sint (disp 3)"
    using assms sint_add_no_overflow [of 795 "disp 3"] by simp
  have "sint (795 + disp 3 + 50) = sint (795 + disp 3) + 50"
    using assms x sint_add_no_overflow [of "795 + disp 3" 50] by simp
  then have flip: "SCREEN_WIDTH \<le>s 795 + disp 3 + 50"
    using assms x by (simp add: word_sle_eq SCREEN_WIDTH_def)
  have "update_sprite disp SpriteA
    = \<lparr>rect = \<lparr>rect_x = 795 + disp 3, rect_y = 300 + disp 0, rect_w = 50, rect_h = 50\<rparr>,
        speedX = - 3, speedY = 0, lifetime = 4, texture = 1\<rparr>"
    using flip by (simp add: update_sprite_def bounce_def integrate_def Let_def SpriteA_def)
  then show ?thesis
    by (simp add: simulate_single SpriteA_def)
qed

text \<open>
  Claim C4. The update loop handles each sprite once: it integrates the position, then
  tests each axis on the integrated position (where \<open>x + w\<close> and \<open>y + h\<close> are
  representable: \<open>x \<le> 0\<close> or \<open>x + w \<ge> 800\<close>, \<open>y \<le> 0\<close> or \<open>y + h \<ge> 600\<close>) and negates the
  speed of that axis, independently of the other axis; the position stays the integrated
  one (no clamping). Both axes flip in one step for a sprite past the right and bottom
  edges. The sprite at \<open>x = 795\<close>, \<open>w = 50\<close>, speed \<open>(3, 0)\<close>, lifetime 5 ends a step with
  speed \<open>(-3, 0)\<close> and lifetime 4, for every displacement of speed 3 from -45 upwards
  (with \<open>deltaTime = 1/60\<close> the displacement \<open>static_cast<int>(3 * deltaTime * 60)\<close> is 3,
  or 2 if the floating-point product falls just below 3).
\<close>

theorem bounce_after_integration:
  assumes "rect_no_overflow (rect (update_sprite disp s))"
    and "- 45 \<le> sint (d 3)" "sint (d 3) \<le> 2147482802"
  shows "update_loop disp 0 v = map (update_sprite disp) v
     \<and> rect (update_sprite disp s)
         = (rect s)\<lparr>rect_x := rect_x (rect s) + disp (speedX s),
                    rect_y := rect_y (rect s) + disp (speedY s)\<rparr>
     \<and> speedX (update_sprite disp s)
         = (if sint (rect_x (rect (update_sprite disp s))) \<le> 0
              \<or> 800 \<le> sint (rect_x (rect (update_sprite disp s))) + sint (rect_w (rect s))
            then - speedX s else speedX s)
     \<and> speedY (update_sprite disp s)
         = (if sint (rect_y (rect (update_sprite disp s))) \<le> 0
              \<or> 600 \<le> sint (rect_y (rect (update_sprite disp s))) + sint (rect_h (rect s))
            then - speedY s else speedY s)
     \<and> lifetime (update_sprite disp s) = lifetime s - 1
     \<and> speedX (update_sprite (\<lambda>v. v) corner_sprite) = - 3
     \<and> speedY (update_sprite (\<lambda>v. v) corner_sprite) = - 2
     \<and> simulate d [SpriteA]
         = [\<lparr>rect = \<lparr>rect_x = 795 + d 3, rect_y = 300 + d 0, rect_w = 50, rect_h = 50\<rparr>,
             speedX = - 3, speedY = 0, lifetime = 4, texture = 1\<rparr>]"
  using update_loop_map [of disp v] update_sprite_rect [of disp s]
    update_sprite_speedX_sint [OF assms(1)] update_sprite_speedY_sint [OF assms(1)]
    corner_both_flip SpriteA_step [of d] assms(2,3)
  by simp

theorem bounce_after_integration_witness:
  "rect_no_overflow (rect (update_sprite (\<lambda>v. v) SpriteA))
   \<and> - 45 \<le> sint (3 :: cint) \<and> sint (3 :: cint) \<le> 2147482802
   \<and> simulate (\<lambda>v. v) [SpriteA]
       = [\<lparr>rect = \<lparr>rect_x = 798, rect_y = 300, rect_w = 50, rect_h = 50\<rparr>,
           speedX = - 3, speedY = 0, lifetime = 4, texture = 1\<rparr>]"
proof -
  have a: "rect_no_overflow (rect (update_sprite (\<lambda>v. v) SpriteA))"
    by (simp add: update_sprite_rect rect_no_overflow_def SpriteA_def)
  have b: "- 45 \<le> sint ((\<lambda>v. v) (3 :: cint))" "sint ((\<lambda>v. v) (3 :: cint)) \<le> 2147482802"
    by simp_all
  show ?thesis
    using bounce_after_integration [of "\<lambda>v. v" SpriteA "\<lambda>v. v"] a b by simp
qed

subsection \<open>The step after a bounce\<close>

lemma frame_without_spawn:
  assumes "slider inp = None" "\<not> 30 <s spawnTimer st + 1"
  shows "frame textures inp st
    = Some \<lparr>sprites = simulate (displacement inp) (sprites st), spawnTimer = spawnTimer st + 1\<rparr>"
  using assms by (simp add: frame_def spawn_gate_def Let_def)

text \<open>
  Claim C5. The claim holds of a bounce that corrects the motion; the code does not do it.
  The test of lines 164 to 166 negates the x speed in every frame whose integrated
  position is at or past an edge, whichever way the sprite is moving. A sprite inside the
  screen with speed \<open>(2, 0)\<close>, alone in the collection, passes the right edge in a frame
  of 250 ms (\<open>x = 770\<close>) and its speed becomes \<open>-2\<close>; the next frame lasts 125 ms and moves
  it back by 15 only (\<open>x = 755\<close>, \<open>x + w = 805\<close>), the test holds again, and at the end of
  that next step its x speed is \<open>+2\<close>, not negative. With further frames of 125 ms the
  speed is negated in every frame and the sprite stays past the edge.
\<close>

theorem bounce_negates_again_past_edge:
  "0 < sint (rect_x (rect stuck_sprite))
   \<and> sint (rect_x (rect stuck_sprite)) + sint (rect_w (rect stuck_sprite)) < 800
   \<and> 0 < sint (rect_y (rect stuck_sprite))
   \<and> sint (rect_y (rect stuck_sprite)) + sint (rect_h (rect stuck_sprite)) < 600
   \<and> speedX stuck_sprite = 2 \<and> speedY stuck_sprite = 0
   \<and> simulate disp_250ms [stuck_sprite]
       = [\<lparr>rect = \<lparr>rect_x = 770, rect_y = 300, rect_w = 50, rect_h = 50\<rparr>,
           speedX = - 2, speedY = 0, lifetime = 99, texture = 1\<rparr>]
   \<and> simulate disp_125ms (simulate disp_250ms [stuck_sprite])
       = [\<lparr>rect = \<lparr>rect_x = 755, rect_y = 300, rect_w = 50, rect_h = 50\<rparr>,
           speedX = 2, speedY = 0, lifetime = 98, texture = 1\<rparr>]
   \<and> \<not> sint (speedX (hd (simulate disp_125ms (simulate disp_250ms [stuck_sprite])))) < 0
   \<and> run [1, 2, 3] [frame_250ms, frame_125ms] \<lparr>sprites = [stuck_sprite], spawnTimer = 0\<rparr>
       = Some \<lparr>sprites = [\<lparr>rect = \<lparr>rect_x = 755, rect_y = 300, rect_w = 50, rect_h = 50\<rparr>,
                            speedX = 2, speedY = 0, lifetime = 98, texture = 1\<rparr>],
               spawnTimer = 2\<rparr>
   \<and> run [1, 2, 3] [frame_250ms, frame_125ms, frame_125ms]
         \<lparr>sprites = [stuck_sprite], spawnTimer = 0\<rparr>
       = Some \<lparr>sprites = [\<lparr>rect = \<lparr>rect_x = 770, rect_y = 300, rect_w = 50, rect_h = 50\<rparr>,
                            speedX = - 2, speedY = 0, lifetime = 97, texture = 1\<rparr>],
               spawnTimer = 3\<rparr>
   \<and> run [1, 2, 3] [frame_250ms, frame_125ms, frame_125ms, frame_125ms]
         \<lparr>sprites = [stuck_sprite], spawnTimer = 0\<rparr>
       = Some \<lparr>sprites = [\<lparr>rect = \<lparr>rect_x = 755, rect_y = 300, rect_w = 50, rect_h = 50\<rparr>,
                            speedX = 2, speedY = 0, lifetime = 96, texture = 1\<rparr>],
               spawnTimer = 4\<rparr>"
proof -
  have one: "simulate disp_250ms [stuck_sprite]
       = [\<lparr>rect = \<lparr>rect_x = 770, rect_y = 300, rect_w = 50, rect_h = 50\<rparr>,
           speedX = - 2, speedY = 0, lifetime = 99, texture = 1\<rparr>]"
    by (simp add: simulate_single update_sprite_def bounce_def integrate_def Let_def
        stuck_sprite_def disp_250ms_def SCREEN_WIDTH_def SCREEN_HEIGHT_def word_sle_eq)
  have d: "disp_125ms (- 2) = - 15" "disp_125ms 0 = 0" "disp_125ms 2 = 15"
    by (simp_all add: disp_125ms_def signed_divide_int_def)
  have inward: "simulate disp_125ms
        [\<lparr>rect = \<lparr>rect_x = 770, rect_y = 300, rect_w = 50, rect_h = 50\<rparr>,
           speedX = - 2, speedY = 0, lifetime = l, texture = 1\<rparr>]
       = [\<lparr>rect = \<lparr>rect_x = 755, rect_y = 300, rect_w = 50, rect_h = 50\<rparr>,
           speedX = 2, speedY = 0, lifetime = l - 1, texture = 1\<rparr>]"
    if "0 < sint (l - 1)" for l
    using that
    by (simp add: simulate_single update_sprite_def bounce_def integrate_def Let_def
        d SCREEN_WIDTH_def SCREEN_HEIGHT_def word_sle_eq)
  have outward: "simulate disp_125ms
        [\<lparr>rect = \<lparr>rect_x = 755, rect_y = 300, rect_w = 50, rect_h = 50\<rparr>,
           speedX = 2, speedY = 0, lifetime = l, texture = 1\<rparr>]
       = [\<lparr>rect = \<lparr>rect_x = 770, rect_y = 300, rect_w = 50, rect_h = 50\<rparr>,
           speedX = - 2, speedY = 0, lifetime = l - 1, texture = 1\<rparr>]"
    if "0 < sint (l - 1)" for l
    using that
    by (simp add: simulate_single update_sprite_def bounce_def integrate_def Let_def
        d SCREEN_WIDTH_def SCREEN_HEIGHT_def word_sle_eq)
  have two: "simulate disp_125ms
        [\<lparr>rect = \<lparr>rect_x = 770, rect_y = 300, rect_w = 50, rect_h = 50\<rparr>,
           speedX = - 2, speedY = 0, lifetime = 99, texture = 1\<rparr>]
       = [\<lparr>rect = \<lparr>rect_x = 755, rect_y = 300, rect_w = 50, rect_h = 50\<rparr>,
           speedX = 2, speedY = 0, lifetime = 98, texture = 1\<rparr>]"
    using inward [of 99] by simp
  have three: "simulate disp_125ms
        [\<lparr>rect = \<lparr>rect_x = 755, rect_y = 300, rect_w = 50, rect_h = 50\<rparr>,
           speedX = 2, speedY = 0, lifetime = 98, texture = 1\<rparr>]
       = [\<lparr>rect = \<lparr>rect_x = 770, rect_y = 300, rect_w = 50, rect_h = 50\<rparr>,
           speedX = - 2, speedY = 0, lifetime = 97, texture = 1\<rparr>]"
    using outward [of 98] by simp
  have four: "simulate disp_125ms
        [\<lparr>rect = \<lparr>rect_x = 770, rect_y = 300, rect_w = 50, rect_h = 50\<rparr>,
           speedX = - 2, speedY = 0, lifetime = 97, texture = 1\<rparr>]
       = [\<lparr>rect = \<lparr>rect_x = 755, rect_y = 300, rect_w = 50, rect_h = 50\<rparr>,
           speedX = 2, speedY = 0, lifetime = 96, texture = 1\<rparr>]"
    using inward [of 97] by simp
  have frames2: "run [1, 2, 3] [frame_250ms, frame_125ms] \<lparr>sprites = [stuck_sprite], spawnTimer = 0\<rparr>
       = Some \<lparr>sprites = simulate disp_125ms (simulate disp_250ms [stuck_sprite]), spawnTimer = 2\<rparr>"
    by (simp add: frame_without_spawn frame_250ms_def frame_125ms_def word_sless_alt)
  have frames3: "run [1, 2, 3] [frame_250ms, frame_125ms, frame_125ms]
         \<lparr>sprites = [stuck_sprite], spawnTimer = 0\<rparr>
       = Some \<lparr>sprites = simulate disp_125ms (simulate disp_125ms (simulate disp_250ms [stuck_sprite])),
               spawnTimer = 3\<rparr>"
    by (simp add: frame_without_spawn frame_250ms_def frame_125ms_def word_sless_alt)
  have frames4: "run [1, 2, 3] [frame_250ms, frame_125ms, frame_125ms, frame_125ms]
         \<lparr>sprites = [stuck_sprite], spawnTimer = 0\<rparr>
       = Some \<lparr>sprites = simulate disp_125ms
                 (simulate disp_125ms (simulate disp_125ms (simulate disp_250ms [stuck_sprite]))),
               spawnTimer = 4\<rparr>"
    by (simp add: frame_without_spawn frame_250ms_def frame_125ms_def word_sless_alt)
  show ?thesis
    unfolding frames2 frames3 frames4 one two three four by (simp add: stuck_sprite_def)
qed

end
